theory Spec2Isabelle
  imports Main "HOL-Library.AList" "HOL-Library.Monad_Syntax"
begin

section \<open>JavaScript values\<close>

text \<open>
  The request pipeline of the Nylas client handles values typed \<open>any\<close>: request and
  response bodies, query parameters, header values. They are modelled by the JSON-shaped
  fragment of the JavaScript values. A string is the list of its code units, taken to be
  below 256. A Number is represented by the text that \<open>Number.prototype.toString\<close>
  gives it (\<open>5\<close>, \<open>-1.5\<close>, \<open>1e+21\<close>, \<open>NaN\<close>): the code observes a number only
  through ToString and ToBoolean, and both are read off that text. An object is the list
  of its own properties in insertion order; none of them is a function, so an own
  property \<open>toString\<close> is never callable. These values are immutable trees: the code
  below never writes into a body or into a query parameter's value. The two kinds of
  objects the code does write into (header and query mappings) live in the store of the
  next section.
\<close>

datatype jsval =
    JUndefined
  | JNull
  | JBool bool
  | JNum string
  | JStr string
  | JArr "jsval list"
  | JObj "(string \<times> jsval) list"

type_synonym obj = "(string \<times> jsval) list"

text \<open>
  ToBoolean: \<open>undefined\<close>, \<open>null\<close>, \<open>false\<close>, the numbers \<open>0\<close> (which is also the
  text of \<open>-0\<close>) and \<open>NaN\<close>, and the empty string are falsy.
\<close>

fun truthy :: "jsval \<Rightarrow> bool" where
  "truthy JUndefined = False"
| "truthy JNull = False"
| "truthy (JBool b) = b"
| "truthy (JNum t) = (t \<noteq> ''0'' \<and> t \<noteq> ''NaN'')"
| "truthy (JStr s) = (s \<noteq> [])"
| "truthy (JArr xs) = True"
| "truthy (JObj ps) = True"

text \<open>\<open>x == null\<close> holds of \<open>null\<close> and \<open>undefined\<close> only.\<close>

fun nullish :: "jsval \<Rightarrow> bool" where
  "nullish JUndefined = True"
| "nullish JNull = True"
| "nullish v = False"

text \<open>\<open>Array.prototype.join\<close> on strings.\<close>

fun join :: "string \<Rightarrow> string list \<Rightarrow> string" where
  "join sep [] = []"
| "join sep [x] = x"
| "join sep (x # y # ys) = x @ sep @ join sep (y # ys)"

text \<open>
  ToString, as a template literal \<open>`${v}`\<close>, the \<open>Error\<close> constructor and
  \<open>JSON.parse\<close> apply it; \<open>None\<close> where it raises a TypeError. An array is its
  elements joined by commas, \<open>null\<close> and \<open>undefined\<close> elements contributing nothing.
  An object is converted by its \<open>toString\<close>: the inherited one yields
  \<open>[object Object]\<close>; an own property of that name hides it and, not being callable,
  leaves the conversion without a result (the inherited \<open>valueOf\<close> returns the object
  itself), which is the TypeError.
\<close>

fun to_string :: "jsval \<Rightarrow> string option" where
  "to_string JUndefined = Some ''undefined''"
| "to_string JNull = Some ''null''"
| "to_string (JBool b) = Some (if b then ''true'' else ''false'')"
| "to_string (JNum t) = Some t"
| "to_string (JStr s) = Some s"
| "to_string (JArr xs) =
     map_option (join '','')
       (those (map (\<lambda>x. if x = JUndefined \<or> x = JNull then Some [] else to_string x) xs))"
| "to_string (JObj ps) =
     (if map_of ps ''toString'' = None then Some ''[object Object]'' else None)"

text \<open>A value typed \<open>string | null\<close>, inside a template literal.\<close>

definition tmpl :: "string option \<Rightarrow> string" where
  "tmpl s = (case s of None \<Rightarrow> ''null'' | Some t \<Rightarrow> t)"

text \<open>Reading an own property of an object: \<open>undefined\<close> when it has none of that name.\<close>

definition get_own :: "obj \<Rightarrow> string \<Rightarrow> jsval" where
  "get_own ob k = (case map_of ob k of None \<Rightarrow> JUndefined | Some v \<Rightarrow> v)"

text \<open>
  \<open>v.k\<close> for the property names the code reads off a body (\<open>message\<close>,
  \<open>missing_fields\<close>, \<open>server_error\<close>, \<open>access_token\<close>): none of them is inherited
  from a built-in prototype, so a string, number, boolean or array has none of them. On
  \<open>null\<close> and \<open>undefined\<close> the read raises a TypeError; \<open>nullish\<close> is tested first
  wherever that can happen.
\<close>

fun get_prop :: "jsval \<Rightarrow> string \<Rightarrow> jsval" where
  "get_prop (JObj ps) k = get_own ps k"
| "get_prop v k = JUndefined"

section \<open>The store of mutable objects\<close>

text \<open>
  A request descriptor refers to its header mapping and to its query mapping; the
  translator writes into mappings. References are addresses into a store, so that two
  references to one object see each other's writes. \<open>next_free\<close> is the address the
  next object literal gets.
\<close>

type_synonym addr = nat

record store =
  cells :: "addr \<Rightarrow> obj"
  next_free :: addr

definition alloc :: "store \<Rightarrow> obj \<Rightarrow> addr \<times> store" where
  "alloc st ob =
     (next_free st, st\<lparr>cells := (cells st)(next_free st := ob), next_free := Suc (next_free st)\<rparr>)"

definition set_prop :: "store \<Rightarrow> addr \<Rightarrow> string \<Rightarrow> jsval \<Rightarrow> store" where
  "set_prop st a k v = st\<lparr>cells := (cells st)(a := AList.update k v (cells st a))\<rparr>"

definition delete_prop :: "store \<Rightarrow> addr \<Rightarrow> string \<Rightarrow> store" where
  "delete_prop st a k = st\<lparr>cells := (cells st)(a := AList.delete k (cells st a))\<rparr>"

section \<open>Configuration, connection, request descriptor\<close>

text \<open>
  The module \<open>config\<close> holds the process-wide \<open>apiServer\<close> (\<open>string | null\<close>) and
  \<open>clientSecret\<close> (\<open>string\<close>); its two values are a parameter of every function that
  reads them. \<open>SDK_VERSION\<close> is read from \<open>package.json\<close> and is a parameter as well.
\<close>

record config =
  apiServer :: "string option"
  clientSecret :: string

text \<open>
  Modelled from the spec: the module \<open>config\<close> is not among the source files. The
  spec describes the configuration store as a simple mutable settings store, so its
  setter \<open>setClientSecret\<close> stores its argument.
\<close>

definition setClientSecret :: "string \<Rightarrow> config \<Rightarrow> config" where
  "setClientSecret newClientSecret cfg = cfg\<lparr>clientSecret := newClientSecret\<rparr>"

text \<open>
  Modelled from the spec: the setter \<open>setApiServer\<close> of the same absent module
  \<open>config\<close>; it stores its argument likewise.
\<close>

definition setApiServer :: "string option \<Rightarrow> config \<Rightarrow> config" where
  "setApiServer newApiServer cfg = cfg\<lparr>apiServer := newApiServer\<rparr>"

definition SUPPORTED_API_VERSION :: string where
  "SUPPORTED_API_VERSION = ''2.1''"

text \<open>\<open>accessToken\<close> and \<open>clientId\<close> of a connection are \<open>string | null | undefined\<close>.\<close>

record NylasConnection =
  accessToken :: jsval
  conn_clientId :: jsval

text \<open>
  \<open>RequestOptions\<close>, the descriptor. An optional field that is left out is \<open>None\<close>;
  \<open>formData\<close> and \<open>body\<close> are \<open>any\<close>, left out when \<open>JUndefined\<close>. The field
  \<open>req_method\<close> is the source's \<open>method\<close>.
\<close>

record RequestOptions =
  path :: string
  req_method :: "string option"
  headers :: "addr option"
  qs :: "addr option"
  downloadRequest :: "bool option"
  json :: "bool option"
  formData :: jsval
  body :: jsval

record auth =
  user :: jsval
  pass :: string
  sendImmediately :: bool

text \<open>The transport options the translator builds (\<open>CoreOptions & UrlOptions\<close>).\<close>

record CoreOptions =
  opt_method :: string
  opt_url :: string
  opt_headers :: addr
  opt_json :: bool
  opt_encoding :: "jsval option"
  opt_formData :: "jsval option"
  opt_body :: "jsval option"
  opt_qs :: "addr option"
  opt_auth :: "auth option"

section \<open>The translator \<open>requestOptions\<close>\<close>

text \<open>
  The function follows the source statement by statement. \<open>options.headers || {}\<close>
  yields the descriptor's own header object when there is one, a new object otherwise;
  \<open>{ ...options.qs }\<close> is a new object with the same properties.
\<close>

definition requestOptions ::
  "config \<Rightarrow> string \<Rightarrow> NylasConnection \<Rightarrow> store \<Rightarrow> RequestOptions \<Rightarrow> store \<times> CoreOptions" where
  "requestOptions cfg SDK_VERSION this st options =
    (let (h, st1) = (case headers options of Some a \<Rightarrow> (a, st) | None \<Rightarrow> alloc st []);
         newOptions = \<lparr>
           opt_method = (case req_method options of None \<Rightarrow> ''GET''
                         | Some m \<Rightarrow> if m = [] then ''GET'' else m),
           opt_url = tmpl (apiServer cfg) @ path options,
           opt_headers = h,
           opt_json = (case json options of None \<Rightarrow> True | Some b \<Rightarrow> b),
           opt_encoding = (if downloadRequest options = Some True then Some JNull else None),
           opt_formData = (if truthy (formData options) then Some (formData options) else None),
           opt_body = (if truthy (formData options) then None
                       else Some (if truthy (body options) then body options else JObj [])),
           opt_qs = None,
           opt_auth = None \<rparr>;
         (newOptions, st2) =
           (case qs options of
              None \<Rightarrow> (newOptions, st1)
            | Some q \<Rightarrow>
                (let (q', s) = alloc st1 (cells st1 q);
                     expanded = get_own (cells s q') ''expanded'';
                     s = (if truthy expanded
                          then delete_prop
                                 (if expanded = JBool True
                                  then set_prop s q' ''view'' (JStr ''expanded'') else s)
                                 q' ''expanded''
                          else s)
                 in (newOptions\<lparr>opt_qs := Some q'\<rparr>, s)));
         user = (if take 3 (path options) = ''/a/''
                 then JStr (clientSecret cfg) else accessToken this);
         newOptions = (if truthy user
                       then newOptions\<lparr>opt_auth :=
                              Some \<lparr>user = user, pass = [], sendImmediately = True\<rparr>\<rparr>
                       else newOptions);
         st3 = (if nullish (get_own (cells st2 h) ''User-Agent'')
                then set_prop st2 h ''User-Agent'' (JStr (''Nylas Node SDK v'' @ SDK_VERSION))
                else st2);
         st4 = set_prop st3 h ''Nylas-API-Version'' (JStr SUPPORTED_API_VERSION);
         st5 = set_prop st4 h ''Nylas-SDK-API-Version'' (JStr SUPPORTED_API_VERSION);
         st6 = set_prop st5 h ''X-Nylas-Client-Id'' (conn_clientId this)
     in (st6, newOptions))"

definition wf_options :: "store \<Rightarrow> RequestOptions \<Rightarrow> bool" where
  \<comment> \<open>The descriptor's references point at objects that exist.\<close>
  "wf_options st options =
     ((case headers options of None \<Rightarrow> True | Some a \<Rightarrow> a < next_free st) \<and>
      (case qs options of None \<Rightarrow> True | Some q \<Rightarrow> q < next_free st))"

section \<open>The version compatibility checker\<close>

text \<open>
  A Number as \<open>parseInt\<close> returns it: \<open>NaN\<close>, an infinity, or a double whose
  value is an integer.
\<close>

datatype number = NaN | Finite int | PlusInfinity | MinusInfinity

text \<open>
  The double nearest to a natural number, ties going to the even significand of 53 bits:
  below \<open>2^53\<close> the number itself; otherwise the number is cut to its 53 leading bits
  and rounded.
\<close>

fun shift_for :: "nat \<Rightarrow> nat" where
  "shift_for n = (if n < 2 ^ 53 then 0 else 1 + shift_for (n div 2))"

declare shift_for.simps [simp del]

definition round_nat :: "nat \<Rightarrow> nat" where
  "round_nat n =
     (if n < 2 ^ 53 then n
      else (let e = shift_for n; q = n div 2 ^ e; r = n mod 2 ^ e
            in (if 2 ^ e < 2 * r \<or> (2 * r = 2 ^ e \<and> odd q) then q + 1 else q) * 2 ^ e))"

text \<open>An integer as a Number; from \<open>2^1024\<close> on the rounded magnitude is an infinity.\<close>

definition to_Number :: "int \<Rightarrow> number" where
  "to_Number i =
     (let v = round_nat (nat \<bar>i\<bar>)
      in if 2 ^ 1024 \<le> v then (if i < 0 then MinusInfinity else PlusInfinity)
         else Finite (if i < 0 then - int v else int v))"

text \<open>
  \<open>parseInt\<close> with no radix: leading white space is skipped, a sign is read, a
  \<open>0x\<close> prefix selects radix 16, and the longest run of digits is the number.
  \<open>mathInt\<close> is the integer these digits denote, \<open>None\<close> when there is no digit;
  \<open>parseInt\<close> returns it as a Number, and \<open>NaN\<close> when there is none. Every digit
  counts: ECMAScript allows an engine to read the decimal digits after the twentieth as
  zeros, and the engine of Node, on which this client runs, does not use that allowance.
\<close>

definition is_ws :: "char \<Rightarrow> bool" where
  "is_ws c = (c \<in> set [CHR 0x09, CHR 0x0A, CHR 0x0B, CHR 0x0C, CHR 0x0D, CHR 0x20, CHR 0xA0])"

definition digit_of :: "char \<Rightarrow> nat option" where
  "digit_of c =
     (let n = (of_char c :: nat)
      in if 48 \<le> n \<and> n \<le> 57 then Some (n - 48)
         else if 97 \<le> n \<and> n \<le> 102 then Some (n - 87)
         else if 65 \<le> n \<and> n \<le> 70 then Some (n - 55)
         else None)"

definition is_digit :: "nat \<Rightarrow> char \<Rightarrow> bool" where
  "is_digit radix c = (case digit_of c of None \<Rightarrow> False | Some d \<Rightarrow> d < radix)"

definition digits_value :: "nat \<Rightarrow> string \<Rightarrow> nat" where
  "digits_value radix z =
     foldl (\<lambda>acc c. acc * radix + (case digit_of c of None \<Rightarrow> 0 | Some d \<Rightarrow> d)) 0 z"

definition mathInt :: "string \<Rightarrow> int option" where
  "mathInt s =
     (let s1 = dropWhile is_ws s;
          (sign, s2) = (case s1 of
                          [] \<Rightarrow> (1, s1)
                        | c # r \<Rightarrow> if c = CHR ''-'' then (- 1, r)
                                   else if c = CHR ''+'' then (1, r) else (1, s1));
          (radix, s3) = (if take 2 s2 = ''0x'' \<or> take 2 s2 = ''0X''
                         then (16, drop 2 s2) else (10, s2));
          z = takeWhile (is_digit radix) s3
      in if z = [] then None else Some (sign * int (digits_value radix z)))"

definition parseInt :: "string \<Rightarrow> number" where
  "parseInt s = (case mathInt s of None \<Rightarrow> NaN | Some i \<Rightarrow> to_Number i)"

text \<open>\<open>a > b\<close> on Numbers; a comparison with \<open>NaN\<close> is false.\<close>

fun num_gt :: "number \<Rightarrow> number \<Rightarrow> bool" where
  "num_gt NaN b = False"
| "num_gt a NaN = False"
| "num_gt (Finite x) (Finite y) = (y < x)"
| "num_gt (Finite x) PlusInfinity = False"
| "num_gt (Finite x) MinusInfinity = True"
| "num_gt PlusInfinity PlusInfinity = False"
| "num_gt PlusInfinity b = True"
| "num_gt MinusInfinity b = False"

text \<open>\<open>v.split('-')[0]\<close>: the text before the first \<open>-\<close>.\<close>

definition split_dash_0 :: "string \<Rightarrow> string" where
  "split_dash_0 v = takeWhile (\<lambda>c. c \<noteq> CHR ''-'') v"

definition warning_text :: "string \<Rightarrow> string \<Rightarrow> string" where
  "warning_text sdkApiVersion apiVersion =
     ''WARNING: SDK version may not support your Nylas API version.'' @
     '' SDK supports version '' @ sdkApiVersion @ '' of the API and your application'' @
     '' is currently running on version '' @ apiVersion @ '' of the API.''"

definition dashboard_hint :: string where
  "dashboard_hint = '' Please update the version of the API that your application is using through the developer dashboard.''"

definition sdk_hint :: string where
  "sdk_hint = '' Please update the sdk to ensure it works properly.''"

text \<open>
  \<open>_getWarningForVersion\<close>; both parameters are optional strings, \<open>None\<close> when
  \<open>undefined\<close>.
\<close>

definition getWarningForVersion :: "string option \<Rightarrow> string option \<Rightarrow> string" where
  "getWarningForVersion sdkApiVersion apiVersion =
     (if sdkApiVersion \<noteq> apiVersion then
        (case (sdkApiVersion, apiVersion) of
           (Some sdk, Some api) \<Rightarrow>
             if sdk \<noteq> [] \<and> api \<noteq> [] then
               (let warning = warning_text sdk api;
                    apiNum = parseInt (split_dash_0 api);
                    sdkNum = parseInt (split_dash_0 sdk)
                in if num_gt sdkNum apiNum then warning @ dashboard_hint
                   else if num_gt apiNum sdkNum then warning @ sdk_hint
                   else warning)
             else []
         | _ \<Rightarrow> [])
      else [])"

section \<open>The response normalizer\<close>

text \<open>
  An \<open>Error\<close> object with the two properties the code uses. \<open>new Error(v)\<close> has the
  empty message when \<open>v\<close> is \<open>undefined\<close>, and the message ToString of \<open>v\<close>
  otherwise; it raises the TypeError of that conversion (\<open>None\<close>). \<open>Error_of\<close> is the
  constructor on a string literal.
\<close>

record js_error =
  message :: string
  err_statusCode :: "nat option"

definition Error_of :: "string \<Rightarrow> js_error" where
  "Error_of m = \<lparr>message = m, err_statusCode = None\<rparr>"

definition new_Error :: "jsval \<Rightarrow> js_error option" where
  "new_Error v =
     (if v = JUndefined then Some (Error_of []) else map_option Error_of (to_string v))"

text \<open>The transport's response: status code, headers (names in lower case), raw body.\<close>

record response =
  statusCode :: nat
  resp_headers :: "(string \<times> string) list"
  resp_body :: jsval

text \<open>
  An exception: \<open>throw new Error(m)\<close>, or the SyntaxError and TypeError the runtime
  raises.
\<close>

datatype js_exn = Error string | SyntaxError | TypeError

text \<open>
  What becomes of the promise when the transport's completion callback has run: it is
  resolved, rejected, or the callback raised an exception, which leaves the promise
  pending and the exception uncaught.
\<close>

datatype 'a outcome = Resolved 'a | Rejected js_error | Thrown js_exn

datatype resolution = Body_value jsval | Whole_response response

text \<open>The default \<open>body = {}\<close> of the callback's third parameter.\<close>

definition body_or_empty :: "jsval \<Rightarrow> jsval" where
  "body_or_empty b = (if b = JUndefined then JObj [] else b)"

text \<open>
  The callback \<open>request\<close> hands to the transport. \<open>JSON_parse\<close> stands for the
  built-in \<open>JSON.parse\<close> on strings, \<open>None\<close> where it raises a SyntaxError; the
  built-in applies ToString to its argument first. The statements that build the error
  convert parts of the body to strings, and each conversion can raise a TypeError, which
  then leaves the callback like any other exception. The first component of the result
  lists the calls of \<open>console.warn\<close>.
\<close>

definition request_callback ::
  "(string \<Rightarrow> jsval option) \<Rightarrow> RequestOptions \<Rightarrow> CoreOptions \<Rightarrow>
   js_error option \<Rightarrow> response option \<Rightarrow> jsval \<Rightarrow> string list \<times> resolution outcome" where
  "request_callback JSON_parse options resolvedOptions error response body0 =
    (let body = body_or_empty body0
     in case response of
          None \<Rightarrow>
            ([], Rejected (case error of Some e \<Rightarrow> e | None \<Rightarrow> Error_of ''No response''))
        | Some r \<Rightarrow>
            (let apiVersion = map_of (resp_headers r) ''nylas-api-version'';
                 warning = getWarningForVersion (Some SUPPORTED_API_VERSION) apiVersion;
                 warned = (if warning \<noteq> [] then [warning] else [])
             in case (if opt_json resolvedOptions = False
                      then (case to_string body of
                              None \<Rightarrow> Inl TypeError
                            | Some text \<Rightarrow>
                                (case JSON_parse text of
                                   None \<Rightarrow> Inl SyntaxError
                                 | Some parsed \<Rightarrow> Inr parsed))
                      else Inr body) of
                  Inl exn \<Rightarrow> (warned, Thrown exn)
                | Inr body \<Rightarrow>
                    if error \<noteq> None \<or> 299 < statusCode r then
                      (if nullish body then (warned, Thrown TypeError)
                       else
                        (case do {
                                error \<leftarrow> (case error of
                                           None \<Rightarrow> new_Error (get_prop body ''message'')
                                         | Some e \<Rightarrow> Some e);
                                error \<leftarrow>
                                  (if truthy (get_prop body ''missing_fields'')
                                   then do {
                                     m \<leftarrow> to_string (get_prop body ''message'');
                                     f \<leftarrow> to_string (get_prop body ''missing_fields'');
                                     Some (error\<lparr>message := m @ '': '' @ f\<rparr>) }
                                   else Some error);
                                error \<leftarrow>
                                  (if truthy (get_prop body ''server_error'')
                                   then do {
                                     t \<leftarrow> to_string (get_prop body ''server_error'');
                                     Some (error\<lparr>message :=
                                             message error @ '' (Server Error:'' @ [CHR 0x0A] @
                                             ''              '' @ t @
                                             [CHR 0x0A] @ ''            )''\<rparr>) }
                                   else Some error);
                                Some (if statusCode r \<noteq> 0
                                      then error\<lparr>err_statusCode := Some (statusCode r)\<rparr>
                                      else error) } of
                           None \<Rightarrow> (warned, Thrown TypeError)
                         | Some error \<Rightarrow> (warned, Rejected error)))
                    else if downloadRequest options = Some True
                         then (warned, Resolved (Whole_response r))
                         else (warned, Resolved (Body_value body))))"

text \<open>
  \<open>request\<close>: the translator, then the transport, whose completion signal (error or
  \<open>null\<close>, response or \<open>undefined\<close>, body) is an input here, then the callback. The
  function returns the promise at once and raises nothing itself.
\<close>

definition request ::
  "(string \<Rightarrow> jsval option) \<Rightarrow> config \<Rightarrow> string \<Rightarrow> NylasConnection \<Rightarrow> store \<Rightarrow>
   RequestOptions \<Rightarrow> js_error option \<times> response option \<times> jsval \<Rightarrow>
   store \<times> string list \<times> resolution outcome" where
  "request JSON_parse cfg SDK_VERSION this st options completion =
    (let (st', resolvedOptions) = requestOptions cfg SDK_VERSION this st options;
         (error, response, body) = completion
     in (st', request_callback JSON_parse options resolvedOptions error response body))"

definition promise_of :: "store \<times> string list \<times> resolution outcome \<Rightarrow> resolution outcome" where
  "promise_of res = snd (snd res)"

section \<open>The class \<open>Nylas\<close>\<close>

text \<open>
  The static state: \<open>clientId\<close>, and \<open>clientSecret\<close> and \<open>apiServer\<close>, which the
  class reads from the module \<open>config\<close> and writes through its setters. The
  collaborators that the method \<open>config\<close> constructs are recorded by their constructor
  and its arguments.
\<close>

datatype collaborator =
    Connect NylasConnection string string
  | ManagementModelCollection string NylasConnection string
  | RestfulModelCollection string NylasConnection

record Nylas =
  clientId :: string
  settings :: config
  accounts :: "collaborator option"
  connect :: "collaborator option"
  webhooks :: "collaborator option"

record config_args =
  arg_clientId :: string
  arg_clientSecret :: string
  arg_apiServer :: "string option"

text \<open>\<open>s.indexOf(sub)\<close>: the first position of \<open>sub\<close> in \<open>s\<close>, or \<open>-1\<close>.\<close>

fun indexOf_from :: "string \<Rightarrow> string \<Rightarrow> int \<Rightarrow> int" where
  "indexOf_from [] sub i = (if sub = [] then i else - 1)"
| "indexOf_from (c # cs) sub i =
     (if take (length sub) (c # cs) = sub then i else indexOf_from cs sub (i + 1))"

definition indexOf :: "string \<Rightarrow> string \<Rightarrow> int" where
  "indexOf s sub = indexOf_from s sub 0"

definition clientCredentials :: "Nylas \<Rightarrow> bool" where
  "clientCredentials this =
     (\<not> nullish (JStr (clientId this)) \<and> \<not> nullish (JStr (clientSecret (settings this))))"

definition Nylas_config :: "Nylas \<Rightarrow> config_args \<Rightarrow> js_exn + Nylas" where
  "Nylas_config this args =
    (if (case arg_apiServer args of None \<Rightarrow> False
         | Some a \<Rightarrow> a \<noteq> [] \<and> indexOf a ''://'' = - 1)
     then Inl (Error ''Please specify a fully qualified URL for the API Server.'')
     else
      (let this = (if arg_clientId args \<noteq> []
                   then this\<lparr>clientId := arg_clientId args\<rparr> else this);
           this = (if arg_clientSecret args \<noteq> []
                   then this\<lparr>settings := setClientSecret (arg_clientSecret args) (settings this)\<rparr>
                   else this);
           this = (case arg_apiServer args of
                     None \<Rightarrow>
                       this\<lparr>settings := setApiServer (Some ''https://api.nylas.com'') (settings this)\<rparr>
                   | Some a \<Rightarrow>
                       if a \<noteq> []
                       then this\<lparr>settings := setApiServer (Some a) (settings this)\<rparr>
                       else this\<lparr>settings := setApiServer (Some ''https://api.nylas.com'') (settings this)\<rparr>);
           conn = \<lparr>accessToken = JStr (clientSecret (settings this)),
                   conn_clientId = JStr (clientId this)\<rparr>;
           this = this\<lparr>connect := Some (Connect conn (clientId this) (clientSecret (settings this)))\<rparr>;
           this = this\<lparr>webhooks := Some (ManagementModelCollection ''Webhook'' conn (clientId this))\<rparr>;
           this = (if clientCredentials this
                   then this\<lparr>accounts :=
                          Some (ManagementModelCollection ''ManagementAccount'' conn (clientId this))\<rparr>
                   else this\<lparr>accounts := Some (RestfulModelCollection ''Account'' conn)\<rparr>)
       in Inr this))"

subsection \<open>\<open>exchangeCodeForToken\<close>\<close>

record token_request =
  tr_method :: string
  tr_json :: bool
  tr_url :: string
  tr_qs :: "(string \<times> string) list"

text \<open>How the optional legacy callback was invoked.\<close>

datatype callback_call = Callback_error js_error | Callback_token jsval

text \<open>
  The callback handed to the transport; \<open>has_callback\<close> tells whether the caller
  supplied the legacy callback. The result is the promise's outcome and the call of the
  legacy callback, if any. \<open>new Error(errorMessage)\<close> is evaluated only when the
  transport reported no error; where it raises, neither the promise is settled nor the
  legacy callback called.
\<close>

definition exchange_callback ::
  "bool \<Rightarrow> js_error option \<Rightarrow> jsval \<Rightarrow> jsval outcome \<times> callback_call option" where
  "exchange_callback has_callback error body0 =
    (let body = body0
     in case (if \<not> truthy body \<or> \<not> truthy (get_prop body ''access_token'') then
                (let errorMessage = JStr ''No access token in response'';
                     errorMessage = (if truthy body \<and> truthy (get_prop body ''message'')
                                     then get_prop body ''message'' else errorMessage)
                 in (case error of
                       Some e \<Rightarrow> Some (Some e)
                     | None \<Rightarrow> map_option Some (new_Error errorMessage)))
              else Some error) of
          None \<Rightarrow> (Thrown TypeError, None)
        | Some error \<Rightarrow>
            (case error of
               Some e \<Rightarrow> (Rejected e, if has_callback then Some (Callback_error e) else None)
             | None \<Rightarrow>
                 (Resolved (get_prop body ''access_token''),
                  if has_callback then Some (Callback_token (get_prop body ''access_token''))
                  else None)))"

text \<open>
  \<open>exchangeCodeForToken\<close>: \<open>Inl\<close> is an exception thrown before the promise is
  made, so before any request is issued; \<open>Inr\<close> carries the request that was issued,
  the promise's outcome once the transport has completed with \<open>(error, body)\<close>, and the
  call of the legacy callback.
\<close>

definition exchangeCodeForToken ::
  "Nylas \<Rightarrow> string \<Rightarrow> bool \<Rightarrow> js_error option \<times> jsval \<Rightarrow>
   js_exn + token_request \<times> jsval outcome \<times> callback_call option" where
  "exchangeCodeForToken this code has_callback completion =
    (if clientId this = [] \<or> clientSecret (settings this) = [] then
       Inl (Error ''exchangeCodeForToken() cannot be called until you provide a clientId and secret via config()'')
     else if code = [] then
       Inl (Error ''exchangeCodeForToken() must be called with a code'')
     else
       (let options = \<lparr>
              tr_method = ''GET'',
              tr_json = True,
              tr_url = tmpl (apiServer (settings this)) @ ''/oauth/token'',
              tr_qs = [(''client_id'', clientId this),
                       (''client_secret'', clientSecret (settings this)),
                       (''grant_type'', ''authorization_code''),
                       (''code'', code)] \<rparr>;
            (error, body) = completion
        in Inr (options, exchange_callback has_callback error body)))"

subsection \<open>\<open>urlForAuthentication\<close>\<close>

record auth_options =
  redirectURI :: "string option"
  loginHint :: "string option"
  state :: "string option"
  scopes :: "string list option"

text \<open>
  The function writes the default login hint into its argument; the result is the
  argument after the call together with the URL.
\<close>

definition urlForAuthentication :: "Nylas \<Rightarrow> auth_options \<Rightarrow> js_exn + auth_options \<times> string" where
  "urlForAuthentication this options =
    (if clientId this = [] then
       Inl (Error ''urlForAuthentication() cannot be called until you provide a clientId via config()'')
     else if (case redirectURI options of None \<Rightarrow> True | Some u \<Rightarrow> u = []) then
       Inl (Error ''urlForAuthentication() requires options.redirectURI'')
     else
       (let options = (if (case loginHint options of None \<Rightarrow> True | Some h \<Rightarrow> h = [])
                       then options\<lparr>loginHint := Some []\<rparr> else options);
            url = tmpl (apiServer (settings this)) @ ''/oauth/authorize?client_id='' @
                  clientId this @ ''&response_type=code&login_hint='' @
                  tmpl (loginHint options) @ ''&redirect_uri='' @ tmpl (redirectURI options);
            url = (case state options of None \<Rightarrow> url | Some s \<Rightarrow> url @ ''&state='' @ s);
            url = (case scopes options of None \<Rightarrow> url
                   | Some xs \<Rightarrow> url @ ''&scopes='' @ join '','' xs)
        in Inr (options, url)))"

section \<open>A parser for concrete JSON texts\<close>

text \<open>
  The theorems on \<open>request\<close> hold for whatever \<open>JSON.parse\<close> does. To run the model
  on concrete bodies, \<open>JSON_parse\<close> implements the built-in for the JSON texts made of
  objects, arrays, strings with the two-character escapes, integers, \<open>true\<close>,
  \<open>false\<close> and \<open>null\<close>; numbers with a fraction or an exponent and \<open>\u\<close> escapes
  are outside this fragment, and so are integers of more than 15 digits, whose Number
  need not be the integer. Of a repeated key the last value counts. The first argument
  of the parsing functions is fuel for their recursion, which spends at most two units
  for a character of the text.
\<close>

definition json_ws :: "char \<Rightarrow> bool" where
  "json_ws c = (c = CHR 0x20 \<or> c = CHR 0x09 \<or> c = CHR 0x0A \<or> c = CHR 0x0D)"

definition dec_digit :: "char \<Rightarrow> bool" where
  "dec_digit c = (48 \<le> (of_char c :: nat) \<and> (of_char c :: nat) \<le> 57)"

fun parse_chars :: "string \<Rightarrow> string \<Rightarrow> (string \<times> string) option" where
  "parse_chars [] acc = None"
| "parse_chars [c] acc = (if c = CHR 0x22 then Some (rev acc, []) else None)"
| "parse_chars (c # d # cs) acc =
     (if c = CHR 0x22 then Some (rev acc, d # cs)
      else if c = CHR 0x5C then
        (case map_of [(CHR 0x22, CHR 0x22), (CHR 0x5C, CHR 0x5C), (CHR ''/'', CHR ''/''),
                      (CHR ''b'', CHR 0x08), (CHR ''f'', CHR 0x0C), (CHR ''n'', CHR 0x0A),
                      (CHR ''r'', CHR 0x0D), (CHR ''t'', CHR 0x09)] d of
           None \<Rightarrow> None
         | Some e \<Rightarrow> parse_chars cs (e # acc))
      else if (of_char c :: nat) < 32 then None
      else parse_chars (d # cs) (c # acc))"

definition parse_number :: "string \<Rightarrow> (jsval \<times> string) option" where
  "parse_number s =
     (let (neg, s1) = (case s of [] \<Rightarrow> (False, s)
                       | c # r \<Rightarrow> if c = CHR ''-'' then (True, r) else (False, s));
          z = (if take 1 s1 = ''0'' then ''0'' else takeWhile dec_digit s1);
          rest = drop (length z) s1
      in if z = [] \<or> 15 < length z \<or>
            take 1 rest = ''.'' \<or> take 1 rest = ''e'' \<or> take 1 rest = ''E''
         then None
         else Some (JNum (if neg \<and> z \<noteq> ''0'' then CHR ''-'' # z else z), rest))"

fun parse_value :: "nat \<Rightarrow> string \<Rightarrow> (jsval \<times> string) option"
  and parse_elements :: "nat \<Rightarrow> string \<Rightarrow> (jsval list \<times> string) option"
  and parse_members :: "nat \<Rightarrow> string \<Rightarrow> (obj \<times> string) option" where
  "parse_value 0 s = None"
| "parse_value (Suc n) s =
     (case dropWhile json_ws s of
        [] \<Rightarrow> None
      | c # cs \<Rightarrow>
          if c = CHR ''{'' then
            (if take 1 (dropWhile json_ws cs) = ''}''
             then Some (JObj [], drop 1 (dropWhile json_ws cs))
             else (case parse_members n cs of
                     None \<Rightarrow> None
                   | Some (ms, r) \<Rightarrow> Some (JObj ms, r)))
          else if c = CHR ''['' then
            (if take 1 (dropWhile json_ws cs) = '']''
             then Some (JArr [], drop 1 (dropWhile json_ws cs))
             else (case parse_elements n cs of
                     None \<Rightarrow> None
                   | Some (vs, r) \<Rightarrow> Some (JArr vs, r)))
          else if c = CHR 0x22 then
            (case parse_chars cs [] of
               None \<Rightarrow> None
             | Some (t, r) \<Rightarrow> Some (JStr t, r))
          else if take 4 (c # cs) = ''true'' then Some (JBool True, drop 4 (c # cs))
          else if take 5 (c # cs) = ''false'' then Some (JBool False, drop 5 (c # cs))
          else if take 4 (c # cs) = ''null'' then Some (JNull, drop 4 (c # cs))
          else parse_number (c # cs))"
| "parse_elements 0 s = None"
| "parse_elements (Suc n) s =
     (case parse_value n s of
        None \<Rightarrow> None
      | Some (v, r) \<Rightarrow>
          (case dropWhile json_ws r of
             [] \<Rightarrow> None
           | c # rest \<Rightarrow>
               if c = CHR '','' then
                 (case parse_elements n rest of
                    None \<Rightarrow> None
                  | Some (vs, rest2) \<Rightarrow> Some (v # vs, rest2))
               else if c = CHR '']'' then Some ([v], rest)
               else None))"
| "parse_members 0 s = None"
| "parse_members (Suc n) s =
     (case dropWhile json_ws s of
        [] \<Rightarrow> None
      | c # cs \<Rightarrow>
          if c \<noteq> CHR 0x22 then None
          else
            (case parse_chars cs [] of
               None \<Rightarrow> None
             | Some (k, r) \<Rightarrow>
                 if take 1 (dropWhile json_ws r) \<noteq> '':'' then None
                 else
                   (case parse_value n (drop 1 (dropWhile json_ws r)) of
                      None \<Rightarrow> None
                    | Some (v, rest) \<Rightarrow>
                        (case dropWhile json_ws rest of
                           [] \<Rightarrow> None
                         | d # rest2 \<Rightarrow>
                             if d = CHR '','' then
                               (case parse_members n rest2 of
                                  None \<Rightarrow> None
                                | Some (ms, rest3) \<Rightarrow>
                                    Some ((k, case map_of ms k of None \<Rightarrow> v | Some w \<Rightarrow> w)
                                            # AList.delete k ms, rest3))
                             else if d = CHR ''}'' then Some ([(k, v)], rest2)
                             else None))))"

definition JSON_parse :: "string \<Rightarrow> jsval option" where
  "JSON_parse s =
     (case parse_value (Suc (length s + length s)) s of
        None \<Rightarrow> None
      | Some (v, r) \<Rightarrow> if dropWhile json_ws r = [] then Some v else None)"

section \<open>Concrete stores, descriptors and settings\<close>

text \<open>The store that holds the given objects at the addresses \<open>0, 1, ...\<close>\<close>

definition store_of :: "obj list \<Rightarrow> store" where
  "store_of obs = \<lparr>cells = (\<lambda>a. if a < length obs then obs ! a else []), next_free = length obs\<rparr>"

text \<open>The descriptor \<open>{ path: p }\<close>.\<close>

definition descriptor :: "string \<Rightarrow> RequestOptions" where
  "descriptor p = \<lparr>path = p, req_method = None, headers = None, qs = None,
     downloadRequest = None, json = None, formData = JUndefined, body = JUndefined\<rparr>"

definition example_config :: config where
  "example_config = \<lparr>apiServer = Some ''https://api.nylas.com'', clientSecret = ''s3cret''\<rparr>"

definition example_conn :: NylasConnection where
  "example_conn = \<lparr>accessToken = JStr ''tok'', conn_clientId = JStr ''cid''\<rparr>"

definition anonymous_conn :: NylasConnection where
  "anonymous_conn = \<lparr>accessToken = JNull, conn_clientId = JStr ''cid''\<rparr>"

text \<open>A response with the given status and body, from a server on the supported version.\<close>

definition response_of :: "nat \<Rightarrow> jsval \<Rightarrow> response" where
  "response_of n b =
     \<lparr>statusCode = n, resp_headers = [(''nylas-api-version'', ''2.1'')], resp_body = b\<rparr>"

text \<open>White space, as the layout of a multi-line template literal leaves it in a string.\<close>

definition layout :: "string \<Rightarrow> bool" where
  "layout w = (set w \<subseteq> {CHR 0x0A, CHR 0x20})"

text \<open>
  A store whose only object is the query mapping \<open>{ limit: 5, expanded: e }\<close>, and the
  descriptor \<open>{ path: '/threads', qs: <that mapping> }\<close>.
\<close>

definition query_store :: "jsval \<Rightarrow> store" where
  "query_store e = store_of [[(''limit'', JNum ''5''), (''expanded'', e)]]"

definition threads_query :: RequestOptions where
  "threads_query = (descriptor ''/threads'')\<lparr>qs := Some 0\<rparr>"

text \<open>A configured class state, and what a call of \<open>config\<close> leaves in the store.\<close>

definition example_nylas :: Nylas where
  "example_nylas = \<lparr>clientId = ''abc'', settings = example_config,
     accounts = None, connect = None, webhooks = None\<rparr>"

definition stored :: "js_exn + Nylas \<Rightarrow> (string \<times> string \<times> string option) option" where
  "stored res = (case res of Inl e \<Rightarrow> None
                 | Inr n \<Rightarrow> Some (clientId n, clientSecret (settings n), apiServer (settings n)))"

section \<open>Properties of the translator\<close>

lemma requestOptions_auth_eq:
  "opt_auth (snd (requestOptions cfg v this st options)) =
     (if truthy (if take 3 (path options) = ''/a/''
                 then JStr (clientSecret cfg) else accessToken this)
      then Some \<lparr>user = (if take 3 (path options) = ''/a/''
                         then JStr (clientSecret cfg) else accessToken this),
                 pass = [], sendImmediately = True\<rparr>
      else None)"
  by (simp add: requestOptions_def Let_def split: prod.splits option.splits)

text \<open>
  Claim C1. For a path that starts with \<open>/a/\<close> the auth principal is the configured
  client secret, whatever the connection's access token; for any other path it is the
  access token; and when the selected credential is absent (\<open>undefined\<close>, \<open>null\<close> or
  the empty string) the options carry no auth at all. The translator is a total function:
  it has a result, and raises nothing, in each of these cases.
\<close>

theorem requestOptions_credential_selection:
  "(take 3 (path options) = ''/a/'' \<and> clientSecret cfg \<noteq> [] \<longrightarrow>
      opt_auth (snd (requestOptions cfg v this st options)) =
        Some \<lparr>user = JStr (clientSecret cfg), pass = [], sendImmediately = True\<rparr>) \<and>
   (take 3 (path options) \<noteq> ''/a/'' \<and> truthy (accessToken this) \<longrightarrow>
      opt_auth (snd (requestOptions cfg v this st options)) =
        Some \<lparr>user = accessToken this, pass = [], sendImmediately = True\<rparr>) \<and>
   (\<not> truthy (if take 3 (path options) = ''/a/''
               then JStr (clientSecret cfg) else accessToken this) \<longrightarrow>
      opt_auth (snd (requestOptions cfg v this st options)) = None)"
  by (simp add: requestOptions_auth_eq)

theorem requestOptions_credential_selection_witness:
  "take 3 (path (descriptor ''/a/app'')) = ''/a/'' \<and> clientSecret example_config \<noteq> [] \<and>
   opt_auth (snd (requestOptions example_config ''4.8.0'' example_conn (store_of [])
                    (descriptor ''/a/app''))) =
     Some \<lparr>user = JStr ''s3cret'', pass = [], sendImmediately = True\<rparr> \<and>
   take 3 (path (descriptor ''/threads'')) \<noteq> ''/a/'' \<and> truthy (accessToken example_conn) \<and>
   opt_auth (snd (requestOptions example_config ''4.8.0'' example_conn (store_of [])
                    (descriptor ''/threads''))) =
     Some \<lparr>user = JStr ''tok'', pass = [], sendImmediately = True\<rparr> \<and>
   \<not> truthy (accessToken anonymous_conn) \<and>
   opt_auth (snd (requestOptions example_config ''4.8.0'' anonymous_conn (store_of [])
                    (descriptor ''/threads''))) = None"
  using
    requestOptions_credential_selection
      [of "descriptor ''/a/app''" example_config "''4.8.0''" example_conn "store_of []"]
    requestOptions_credential_selection
      [of "descriptor ''/threads''" example_config "''4.8.0''" example_conn "store_of []"]
    requestOptions_credential_selection
      [of "descriptor ''/threads''" example_config "''4.8.0''" anonymous_conn "store_of []"]
  by (simp add: descriptor_def example_config_def example_conn_def anonymous_conn_def)

lemma requestOptions_query_object:
  assumes "wf_options st options" and "qs options = Some q"
  shows "opt_qs (snd (requestOptions cfg v this st options)) =
           Some (case headers options of None \<Rightarrow> Suc (next_free st) | Some a \<Rightarrow> next_free st) \<and>
         cells (fst (requestOptions cfg v this st options))
           (case headers options of None \<Rightarrow> Suc (next_free st) | Some a \<Rightarrow> next_free st) =
           (if truthy (get_own (cells st q) ''expanded'')
            then AList.delete ''expanded''
                   (if get_own (cells st q) ''expanded'' = JBool True
                    then AList.update ''view'' (JStr ''expanded'') (cells st q)
                    else cells st q)
            else cells st q)"
  using assms
  by (cases "headers options")
     (simp_all add: requestOptions_def wf_options_def alloc_def set_prop_def delete_prop_def
        Let_def)

text \<open>
  Claim C2, as the code has it. The query mapping of the options is a new object, not the
  descriptor's. When \<open>expanded\<close> is exactly \<open>true\<close>, the new object has
  \<open>view = 'expanded'\<close> and no \<open>expanded\<close> key, its other keys being the descriptor's.
  When \<open>expanded\<close> has another truthy value, the new object is the descriptor's mapping
  without the \<open>expanded\<close> key, and no \<open>view\<close> is added. When \<open>expanded\<close> is falsy
  (\<open>false\<close>, \<open>0\<close>, \<open>NaN\<close>, the empty string, \<open>null\<close>, \<open>undefined\<close>, or no such key), the
  new object has exactly the descriptor's properties, the \<open>expanded\<close> key included.
\<close>

theorem requestOptions_query_normalization:
  assumes "wf_options st options"
    and "qs options = Some q"
    and "requestOptions cfg v this st options = (st', new)"
  shows "\<exists>q'. opt_qs new = Some q' \<and> next_free st \<le> q' \<and>
           (get_own (cells st q) ''expanded'' = JBool True \<longrightarrow>
              map_of (cells st' q') =
                ((map_of (cells st q))(''view'' \<mapsto> JStr ''expanded''))(''expanded'' := None)) \<and>
           (truthy (get_own (cells st q) ''expanded'') \<and>
            get_own (cells st q) ''expanded'' \<noteq> JBool True \<longrightarrow>
              map_of (cells st' q') = (map_of (cells st q))(''expanded'' := None)) \<and>
           (\<not> truthy (get_own (cells st q) ''expanded'') \<longrightarrow>
              cells st' q' = cells st q)"
proof -
  let ?q' = "case headers options of None \<Rightarrow> Suc (next_free st) | Some a \<Rightarrow> next_free st"
  from requestOptions_query_object [OF assms(1,2), of cfg v this] assms(3)
  have q: "opt_qs new = Some ?q'"
    and c: "cells st' ?q' =
           (if truthy (get_own (cells st q) ''expanded'')
            then AList.delete ''expanded''
                   (if get_own (cells st q) ''expanded'' = JBool True
                    then AList.update ''view'' (JStr ''expanded'') (cells st q)
                    else cells st q)
            else cells st q)"
    by simp_all
  have "next_free st \<le> ?q'"
    by (simp split: option.splits)
  with q c show ?thesis
    by (auto simp: delete_conv' update_conv')
qed

theorem requestOptions_query_normalization_witness:
  "wf_options (query_store (JBool True)) threads_query \<and> qs threads_query = Some 0 \<and>
   get_own (cells (query_store (JBool True)) 0) ''expanded'' = JBool True \<and>
   opt_qs (snd (requestOptions example_config ''4.8.0'' example_conn
                  (query_store (JBool True)) threads_query)) = Some 2 \<and>
   cells (fst (requestOptions example_config ''4.8.0'' example_conn
                 (query_store (JBool True)) threads_query)) 2 =
     [(''limit'', JNum ''5''), (''view'', JStr ''expanded'')] \<and>
   truthy (get_own (cells (query_store (JStr ''yes'')) 0) ''expanded'') \<and>
   cells (fst (requestOptions example_config ''4.8.0'' example_conn
                 (query_store (JStr ''yes'')) threads_query)) 2 =
     [(''limit'', JNum ''5'')] \<and>
   \<not> truthy (get_own (cells (query_store (JNum ''0'')) 0) ''expanded'') \<and>
   cells (fst (requestOptions example_config ''4.8.0'' example_conn
                 (query_store (JNum ''0'')) threads_query)) 2 =
     [(''limit'', JNum ''5''), (''expanded'', JNum ''0'')]"
proof -
  let ?r = "\<lambda>e. requestOptions example_config ''4.8.0'' example_conn (query_store e) threads_query"
  have wf: "wf_options (query_store e) threads_query" for e
    by (simp add: wf_options_def threads_query_def descriptor_def query_store_def store_of_def)
  have q: "qs threads_query = Some 0"
    by (simp add: threads_query_def)
  have r: "?r e = (fst (?r e), snd (?r e))" for e
    by simp
  have "\<exists>q'. opt_qs (snd (?r (JBool True))) = Some q'"
    and "\<exists>q'. opt_qs (snd (?r (JStr ''yes''))) = Some q'"
    and "\<exists>q'. opt_qs (snd (?r (JNum ''0''))) = Some q'"
    using requestOptions_query_normalization [OF wf q r, of "JBool True"]
      requestOptions_query_normalization [OF wf q r, of "JStr ''yes''"]
      requestOptions_query_normalization [OF wf q r, of "JNum ''0''"]
    by blast+
  then show ?thesis
    using wf q
    by (simp add: requestOptions_def threads_query_def descriptor_def query_store_def
          store_of_def alloc_def set_prop_def delete_prop_def get_own_def example_config_def
          example_conn_def Let_def)
qed

theorem requestOptions_expanded_false_counterexample:
  "opt_qs (snd (requestOptions example_config ''4.8.0'' example_conn
                  (store_of [[(''expanded'', JBool False)]])
                  ((descriptor ''/threads'')\<lparr>qs := Some 0\<rparr>))) = Some 2 \<and>
   map_of (cells (fst (requestOptions example_config ''4.8.0'' example_conn
                  (store_of [[(''expanded'', JBool False)]])
                  ((descriptor ''/threads'')\<lparr>qs := Some 0\<rparr>))) 2) ''expanded'' =
     Some (JBool False)"
  by (simp add: requestOptions_def descriptor_def store_of_def alloc_def set_prop_def
        delete_prop_def get_own_def example_config_def example_conn_def Let_def)

text \<open>
  Claim C9 says that the translator never changes the descriptor it is given, the header
  mapping and the query mapping it refers to included. That fails on the header mapping.
  \<open>options.headers || {}\<close> is the descriptor's own object, and the four header
  assignments write into it: after the call the descriptor's mapping
  \<open>{ Accept: 'message/rfc822' }\<close> holds the four injected headers as well. (The query
  mapping, which the translator copies first, is left alone.)
\<close>

theorem requestOptions_writes_descriptor_headers:
  "cells (store_of [[(''Accept'', JStr ''message/rfc822'')]]) 0 =
     [(''Accept'', JStr ''message/rfc822'')] \<and>
   cells (fst (requestOptions example_config ''4.8.0'' example_conn
                 (store_of [[(''Accept'', JStr ''message/rfc822'')]])
                 ((descriptor ''/messages/1'')\<lparr>headers := Some 0\<rparr>))) 0 =
     [(''Accept'', JStr ''message/rfc822''),
      (''User-Agent'', JStr ''Nylas Node SDK v4.8.0''),
      (''Nylas-API-Version'', JStr ''2.1''),
      (''Nylas-SDK-API-Version'', JStr ''2.1''),
      (''X-Nylas-Client-Id'', JStr ''cid'')]"
  by (simp add: requestOptions_def descriptor_def store_of_def alloc_def set_prop_def
        delete_prop_def get_own_def example_config_def example_conn_def Let_def
        SUPPORTED_API_VERSION_def)

text \<open>
  This is so for every descriptor that has a header mapping: after the call the mapping
  holds the API version header. Every other object that existed before the call, the
  descriptor's query mapping among them, is as it was.
\<close>

lemma requestOptions_headers_written:
  assumes "wf_options st options" and "headers options = Some a"
  shows "get_own (cells (fst (requestOptions cfg v this st options)) a) ''Nylas-API-Version'' =
           JStr SUPPORTED_API_VERSION"
  using assms
  by (cases "qs options")
     (simp_all add: requestOptions_def wf_options_def alloc_def set_prop_def delete_prop_def
        get_own_def update_conv' Let_def)

lemma requestOptions_frame:
  assumes "wf_options st options" and "a < next_free st" and "headers options \<noteq> Some a"
  shows "cells (fst (requestOptions cfg v this st options)) a = cells st a"
  using assms
  by (cases "headers options"; cases "qs options")
     (simp_all add: requestOptions_def wf_options_def alloc_def set_prop_def delete_prop_def
        Let_def)

section \<open>Properties of the response normalizer\<close>

lemma requestOptions_json:
  "opt_json (snd (requestOptions cfg v this st options)) =
     (case json options of None \<Rightarrow> True | Some b \<Rightarrow> b)"
  by (cases "headers options"; cases "qs options")
     (simp_all add: requestOptions_def Let_def alloc_def)

lemma requestOptions_json_false:
  "(\<not> opt_json (snd (requestOptions cfg v this st options))) = (json options = Some False)"
  by (simp add: requestOptions_json split: option.splits)

lemma promise_of_request:
  "promise_of (request P cfg v this st options (error, response, b)) =
     snd (request_callback P options (snd (requestOptions cfg v this st options)) error response b)"
  by (simp add: request_def promise_of_def split: prod.splits)

lemma request_no_response:
  "promise_of (request P cfg v this st options (error, None, b)) =
     Rejected (case error of Some e \<Rightarrow> e | None \<Rightarrow> Error_of ''No response'')"
  by (simp add: promise_of_request request_callback_def Let_def)

lemma request_not_inspected:
  assumes "json options = Some False"
  shows "to_string (body_or_empty b) = None \<Longrightarrow>
           promise_of (request P cfg v this st options (error, Some r, b)) = Thrown TypeError"
    and "to_string (body_or_empty b) = Some s \<Longrightarrow> P s = None \<Longrightarrow>
           promise_of (request P cfg v this st options (error, Some r, b)) = Thrown SyntaxError"
  using assms
  by (simp_all add: promise_of_request request_callback_def Let_def requestOptions_json_false)

text \<open>
  The body the callback inspects: the transport's body, or its parse when \<open>json\<close> is
  \<open>false\<close>.
\<close>

lemma request_inspected:
  assumes "(if json options = Some False then Option.bind (to_string (body_or_empty b)) P
            else Some (body_or_empty b)) = Some B"
  shows "promise_of (request P cfg v this st options (error, Some r, b)) =
     (if error \<noteq> None \<or> 299 < statusCode r then
        (if nullish B then Thrown TypeError
         else
          (case do {
                  e \<leftarrow> (case error of
                         None \<Rightarrow> new_Error (get_prop B ''message'')
                       | Some e \<Rightarrow> Some e);
                  e \<leftarrow> (if truthy (get_prop B ''missing_fields'')
                        then do {
                          m \<leftarrow> to_string (get_prop B ''message'');
                          f \<leftarrow> to_string (get_prop B ''missing_fields'');
                          Some (e\<lparr>message := m @ '': '' @ f\<rparr>) }
                        else Some e);
                  e \<leftarrow> (if truthy (get_prop B ''server_error'')
                        then do {
                          t \<leftarrow> to_string (get_prop B ''server_error'');
                          Some (e\<lparr>message :=
                                  message e @ '' (Server Error:'' @ [CHR 0x0A] @
                                  ''              '' @ t @ [CHR 0x0A] @ ''            )''\<rparr>) }
                        else Some e);
                  Some (if statusCode r \<noteq> 0
                        then e\<lparr>err_statusCode := Some (statusCode r)\<rparr> else e) } of
             None \<Rightarrow> Thrown TypeError
           | Some e \<Rightarrow> Rejected e))
      else if downloadRequest options = Some True then Resolved (Whole_response r)
      else Resolved (Body_value B))"
proof (cases "json options = Some False")
  case True
  with assms obtain s where "to_string (body_or_empty b) = Some s" and "P s = Some B"
    by (auto simp: Option.bind_eq_Some_conv)
  with True show ?thesis
    by (simp add: promise_of_request request_callback_def Let_def requestOptions_json_false
          split: option.splits)
next
  case False
  with assms have "body_or_empty b = B"
    by simp
  with False show ?thesis
    by (simp add: promise_of_request request_callback_def Let_def requestOptions_json_false
          split: option.splits)
qed

lemmas JSON_parse_defs =
  JSON_parse_def json_ws_def parse_number_def dec_digit_def

text \<open>
  Claim C3, as the code has it. A request completes with a response of status at most
  299 and no transport error. If the descriptor's \<open>json\<close> is not \<open>false\<close>, the promise
  resolves: with the whole response when \<open>downloadRequest\<close> is set, with the body
  otherwise. If \<open>json\<close> is \<open>false\<close> and the raw body parses as JSON, the promise
  resolves likewise, the parsed value standing for the body.
\<close>

theorem request_success:
  assumes "statusCode r \<le> 299"
  shows "(json options \<noteq> Some False \<longrightarrow>
            promise_of (request P cfg v this st options (None, Some r, b)) =
              Resolved (if downloadRequest options = Some True then Whole_response r
                        else Body_value (body_or_empty b))) \<and>
         (json options = Some False \<and> to_string (body_or_empty b) = Some raw \<and>
          P raw = Some parsed \<longrightarrow>
            promise_of (request P cfg v this st options (None, Some r, b)) =
              Resolved (if downloadRequest options = Some True then Whole_response r
                        else Body_value parsed))"
proof (intro conjI impI)
  assume "json options \<noteq> Some False"
  then have "(if json options = Some False then Option.bind (to_string (body_or_empty b)) P
              else Some (body_or_empty b)) = Some (body_or_empty b)"
    by simp
  from request_inspected [OF this] assms
  show "promise_of (request P cfg v this st options (None, Some r, b)) =
          Resolved (if downloadRequest options = Some True then Whole_response r
                    else Body_value (body_or_empty b))"
    by simp
next
  assume "json options = Some False \<and> to_string (body_or_empty b) = Some raw \<and>
          P raw = Some parsed"
  then have "(if json options = Some False then Option.bind (to_string (body_or_empty b)) P
              else Some (body_or_empty b)) = Some parsed"
    by simp
  from request_inspected [OF this] assms
  show "promise_of (request P cfg v this st options (None, Some r, b)) =
          Resolved (if downloadRequest options = Some True then Whole_response r
                    else Body_value parsed)"
    by simp
qed

theorem request_success_witness:
  "statusCode (response_of 200 (JObj [(''foo'', JNum ''1'')])) \<le> 299 \<and>
   json (descriptor ''/threads'') \<noteq> Some False \<and>
   promise_of (request JSON_parse example_config ''4.8.0'' example_conn (store_of [])
                 (descriptor ''/threads'')
                 (None, Some (response_of 200 (JObj [(''foo'', JNum ''1'')])),
                  JObj [(''foo'', JNum ''1'')])) =
     Resolved (Body_value (JObj [(''foo'', JNum ''1'')])) \<and>
   promise_of (request JSON_parse example_config ''4.8.0'' example_conn (store_of [])
                 ((descriptor ''/files/1/download'')\<lparr>downloadRequest := Some True\<rparr>)
                 (None, Some (response_of 200 (JStr ''%PDF'')), JStr ''%PDF'')) =
     Resolved (Whole_response (response_of 200 (JStr ''%PDF''))) \<and>
   to_string (body_or_empty (JStr ''{\"foo\": 1}'')) = Some ''{\"foo\": 1}'' \<and>
   JSON_parse ''{\"foo\": 1}'' = Some (JObj [(''foo'', JNum ''1'')]) \<and>
   promise_of (request JSON_parse example_config ''4.8.0'' example_conn (store_of [])
                 ((descriptor ''/messages/1'')\<lparr>json := Some False\<rparr>)
                 (None, Some (response_of 200 (JStr ''{\"foo\": 1}'')), JStr ''{\"foo\": 1}'')) =
     Resolved (Body_value (JObj [(''foo'', JNum ''1'')]))"
proof -
  have s: "statusCode (response_of 200 x) \<le> 299" for x
    by (simp add: response_of_def)
  have t: "to_string (body_or_empty (JStr ''{\"foo\": 1}'')) = Some ''{\"foo\": 1}''"
    by (simp add: body_or_empty_def)
  have p: "JSON_parse ''{\"foo\": 1}'' = Some (JObj [(''foo'', JNum ''1'')])"
    by (simp add: JSON_parse_defs)
  show ?thesis
    using s t p
      request_success [OF s [of "JObj [(''foo'', JNum ''1'')]"],
        where options = "descriptor ''/threads''" and P = JSON_parse
        and cfg = example_config and v = "''4.8.0''" and this = example_conn
        and st = "store_of []" and b = "JObj [(''foo'', JNum ''1'')]"]
      request_success [OF s [of "JStr ''%PDF''"],
        where options = "(descriptor ''/files/1/download'')\<lparr>downloadRequest := Some True\<rparr>"
        and P = JSON_parse and cfg = example_config and v = "''4.8.0''" and this = example_conn
        and st = "store_of []" and b = "JStr ''%PDF''"]
      request_success [OF s [of "JStr ''{\"foo\": 1}''"],
        where options = "(descriptor ''/messages/1'')\<lparr>json := Some False\<rparr>"
        and P = JSON_parse and cfg = example_config and v = "''4.8.0''" and this = example_conn
        and st = "store_of []" and b = "JStr ''{\"foo\": 1}''"
        and raw = "''{\"foo\": 1}''" and parsed = "JObj [(''foo'', JNum ''1'')]"]
    by (simp add: descriptor_def body_or_empty_def)
qed

theorem request_success_raw_body_counterexample:
  "promise_of (request JSON_parse example_config ''4.8.0'' example_conn (store_of [])
                 ((descriptor ''/messages/1'')\<lparr>json := Some False\<rparr>)
                 (None, Some (response_of 200 (JStr ''Subject: hello'')),
                  JStr ''Subject: hello'')) =
     Thrown SyntaxError"
proof -
  have "JSON_parse ''Subject: hello'' = None"
    by (simp add: JSON_parse_defs)
  then show ?thesis
    by (simp add: request_not_inspected descriptor_def body_or_empty_def)
qed

text \<open>
  Claim C4, as the code has it. When the transport delivers no response, the promise is
  rejected with the transport's error, or with the error \<open>No response\<close>. When it
  delivers one, with a transport error or a status above 299, and the body the callback
  inspects (the parsed body when \<open>json\<close> is \<open>false\<close>) is \<open>B\<close>, not \<open>null\<close>, and the
  parts of \<open>B\<close> that the callback puts into the message convert to strings, then the
  promise is rejected, never resolved. The error's message is
  \<open>`${B.message}: ${B.missing_fields}`\<close> when \<open>B.missing_fields\<close> is truthy, and
  otherwise the transport error's message or, without one, the message \<open>B.message\<close>;
  when \<open>B.server_error\<close> is truthy the message goes on with a blank and the parenthesis
  \<open>(Server Error: ... )\<close> around the server error, the white space inside the
  parenthesis being line breaks and blanks. The error's \<open>statusCode\<close> is the response's
  status code when that is not zero.
\<close>

theorem request_failure:
  "promise_of (request P cfg v this st options (error, None, b)) =
     Rejected (case error of Some e0 \<Rightarrow> e0 | None \<Rightarrow> Error_of ''No response'') \<and>
   ((error \<noteq> None \<or> 299 < statusCode r) \<and>
    (if json options = Some False then Option.bind (to_string (body_or_empty b)) P
     else Some (body_or_empty b)) = Some B \<and>
    \<not> nullish B \<and>
    (error = None \<or> truthy (get_prop B ''missing_fields'') \<longrightarrow>
       to_string (get_prop B ''message'') = Some m) \<and>
    (truthy (get_prop B ''missing_fields'') \<longrightarrow>
       to_string (get_prop B ''missing_fields'') = Some f) \<and>
    (truthy (get_prop B ''server_error'') \<longrightarrow>
       to_string (get_prop B ''server_error'') = Some t) \<longrightarrow>
    (\<exists>e w1 w2.
       promise_of (request P cfg v this st options (error, Some r, b)) = Rejected e \<and>
       (statusCode r \<noteq> 0 \<longrightarrow> err_statusCode e = Some (statusCode r)) \<and>
       layout w1 \<and> layout w2 \<and>
       message e =
         (if truthy (get_prop B ''missing_fields'') then m @ '': '' @ f
          else (case error of
                  Some e0 \<Rightarrow> message e0
                | None \<Rightarrow> if get_prop B ''message'' = JUndefined then [] else m)) @
         (if truthy (get_prop B ''server_error'')
          then '' (Server Error:'' @ w1 @ t @ w2 @ '')'' else [])))"
proof (intro conjI impI)
  show "promise_of (request P cfg v this st options (error, None, b)) =
          Rejected (case error of Some e0 \<Rightarrow> e0 | None \<Rightarrow> Error_of ''No response'')"
    by (rule request_no_response)
next
  assume a: "(error \<noteq> None \<or> 299 < statusCode r) \<and>
    (if json options = Some False then Option.bind (to_string (body_or_empty b)) P
     else Some (body_or_empty b)) = Some B \<and>
    \<not> nullish B \<and>
    (error = None \<or> truthy (get_prop B ''missing_fields'') \<longrightarrow>
       to_string (get_prop B ''message'') = Some m) \<and>
    (truthy (get_prop B ''missing_fields'') \<longrightarrow>
       to_string (get_prop B ''missing_fields'') = Some f) \<and>
    (truthy (get_prop B ''server_error'') \<longrightarrow>
       to_string (get_prop B ''server_error'') = Some t)"
  let ?w1 = "[CHR 0x0A] @ ''              ''"
  let ?w2 = "[CHR 0x0A] @ ''            ''"
  have l: "layout ?w1" "layout ?w2"
    by (simp_all add: layout_def)
  from a have i: "(if json options = Some False
                   then Option.bind (to_string (body_or_empty b)) P
                   else Some (body_or_empty b)) = Some B"
    by blast
  have "\<exists>e. promise_of (request P cfg v this st options (error, Some r, b)) = Rejected e \<and>
           (statusCode r \<noteq> 0 \<longrightarrow> err_statusCode e = Some (statusCode r)) \<and>
           message e =
             (if truthy (get_prop B ''missing_fields'') then m @ '': '' @ f
              else (case error of
                      Some e0 \<Rightarrow> message e0
                    | None \<Rightarrow> if get_prop B ''message'' = JUndefined then [] else m)) @
             (if truthy (get_prop B ''server_error'')
              then '' (Server Error:'' @ ?w1 @ t @ ?w2 @ '')'' else [])"
  proof (cases error)
    case None
    with a show ?thesis
      by (simp add: request_inspected [OF i] new_Error_def Error_of_def)
  next
    case (Some e0)
    with a show ?thesis
      by (simp add: request_inspected [OF i])
  qed
  with l show "\<exists>e w1 w2.
       promise_of (request P cfg v this st options (error, Some r, b)) = Rejected e \<and>
       (statusCode r \<noteq> 0 \<longrightarrow> err_statusCode e = Some (statusCode r)) \<and>
       layout w1 \<and> layout w2 \<and>
       message e =
         (if truthy (get_prop B ''missing_fields'') then m @ '': '' @ f
          else (case error of
                  Some e0 \<Rightarrow> message e0
                | None \<Rightarrow> if get_prop B ''message'' = JUndefined then [] else m)) @
         (if truthy (get_prop B ''server_error'')
          then '' (Server Error:'' @ w1 @ t @ w2 @ '')'' else [])"
    by blast
qed

theorem request_failure_witness:
  "promise_of (request JSON_parse example_config ''4.8.0'' example_conn (store_of [])
                 (descriptor ''/threads/1'')
                 (Some (Error_of ''connect ETIMEDOUT''), None, JUndefined)) =
     Rejected (Error_of ''connect ETIMEDOUT'') \<and>
   promise_of (request JSON_parse example_config ''4.8.0'' example_conn (store_of [])
                 (descriptor ''/threads/1'')
                 (None,
                  Some (response_of 404
                    (JObj [(''message'', JStr ''not found''), (''missing_fields'', JArr [JStr ''x''])])),
                  JObj [(''message'', JStr ''not found''), (''missing_fields'', JArr [JStr ''x''])])) =
     Rejected \<lparr>message = ''not found: x'', err_statusCode = Some 404\<rparr> \<and>
   JSON_parse ''{\"server_error\":\"db\"}'' = Some (JObj [(''server_error'', JStr ''db'')]) \<and>
   (\<exists>w1 w2. layout w1 \<and> layout w2 \<and>
      promise_of (request JSON_parse example_config ''4.8.0'' example_conn (store_of [])
                    ((descriptor ''/messages/1'')\<lparr>json := Some False\<rparr>)
                    (Some (Error_of ''socket hang up''),
                     Some (response_of 500 (JStr ''{\"server_error\":\"db\"}'')),
                     JStr ''{\"server_error\":\"db\"}'')) =
        Rejected \<lparr>message = ''socket hang up (Server Error:'' @ w1 @ ''db'' @ w2 @ '')'',
                  err_statusCode = Some 500\<rparr>)"
proof -
  let ?B = "JObj [(''message'', JStr ''not found''), (''missing_fields'', JArr [JStr ''x''])]"
  let ?d1 = "descriptor ''/threads/1''"
  have zero: "promise_of (request JSON_parse example_config ''4.8.0'' example_conn (store_of [])
                 ?d1 (Some (Error_of ''connect ETIMEDOUT''), None, JUndefined)) =
     Rejected (Error_of ''connect ETIMEDOUT'')"
    using request_failure
         [where error = "Some (Error_of ''connect ETIMEDOUT'')" and P = JSON_parse
            and b = JUndefined and options = ?d1 and cfg = example_config
            and v = "''4.8.0''" and this = example_conn and st = "store_of []"]
    by simp
  have h1: "((None :: js_error option) \<noteq> None \<or> 299 < statusCode (response_of 404 ?B)) \<and>
    (if json ?d1 = Some False then Option.bind (to_string (body_or_empty ?B)) JSON_parse
     else Some (body_or_empty ?B)) = Some ?B \<and>
    \<not> nullish ?B \<and>
    ((None :: js_error option) = None \<or> truthy (get_prop ?B ''missing_fields'') \<longrightarrow>
       to_string (get_prop ?B ''message'') = Some ''not found'') \<and>
    (truthy (get_prop ?B ''missing_fields'') \<longrightarrow>
       to_string (get_prop ?B ''missing_fields'') = Some ''x'') \<and>
    (truthy (get_prop ?B ''server_error'') \<longrightarrow>
       to_string (get_prop ?B ''server_error'') = Some [])"
    by (simp add: response_of_def descriptor_def body_or_empty_def get_own_def)
  from request_failure
         [where error = None and r = "response_of 404 ?B" and P = JSON_parse and b = ?B
            and B = ?B and options = ?d1 and cfg = example_config and m = "''not found''"
            and f = "''x''" and t = "[]"
            and v = "''4.8.0''" and this = example_conn and st = "store_of []"] h1
  obtain e where
    "promise_of (request JSON_parse example_config ''4.8.0'' example_conn (store_of [])
       ?d1 (None, Some (response_of 404 ?B), ?B)) = Rejected e"
    and "statusCode (response_of 404 ?B) \<noteq> 0 \<longrightarrow>
       err_statusCode e = Some (statusCode (response_of 404 ?B))"
    and "\<exists>w1 w2. message e =
         (if truthy (get_prop ?B ''missing_fields'') then ''not found'' @ '': '' @ ''x''
          else (case None :: js_error option of
                  Some e0 \<Rightarrow> message e0
                | None \<Rightarrow> if get_prop ?B ''message'' = JUndefined then [] else ''not found'')) @
         (if truthy (get_prop ?B ''server_error'')
          then '' (Server Error:'' @ w1 @ [] @ w2 @ '')'' else [])"
    by blast
  then have first: "promise_of (request JSON_parse example_config ''4.8.0'' example_conn
       (store_of []) ?d1 (None, Some (response_of 404 ?B), ?B)) =
     Rejected \<lparr>message = ''not found: x'', err_statusCode = Some 404\<rparr>"
    by (cases e) (simp add: get_own_def response_of_def)
  let ?raw = "JStr ''{\"server_error\":\"db\"}''"
  let ?S = "JObj [(''server_error'', JStr ''db'')]"
  let ?err = "Error_of ''socket hang up''"
  let ?d = "(descriptor ''/messages/1'')\<lparr>json := Some False\<rparr>"
  have p: "JSON_parse ''{\"server_error\":\"db\"}'' = Some ?S"
    by (simp add: JSON_parse_defs)
  have h2: "(Some ?err \<noteq> None \<or> 299 < statusCode (response_of 500 ?raw)) \<and>
    (if json ?d = Some False then Option.bind (to_string (body_or_empty ?raw)) JSON_parse
     else Some (body_or_empty ?raw)) = Some ?S \<and>
    \<not> nullish ?S \<and>
    (Some ?err = None \<or> truthy (get_prop ?S ''missing_fields'') \<longrightarrow>
       to_string (get_prop ?S ''message'') = Some []) \<and>
    (truthy (get_prop ?S ''missing_fields'') \<longrightarrow>
       to_string (get_prop ?S ''missing_fields'') = Some []) \<and>
    (truthy (get_prop ?S ''server_error'') \<longrightarrow>
       to_string (get_prop ?S ''server_error'') = Some ''db'')"
    using p by (simp add: body_or_empty_def get_own_def)
  from request_failure
         [where error = "Some ?err" and r = "response_of 500 ?raw" and P = JSON_parse
            and b = ?raw and B = ?S and options = ?d and cfg = example_config
            and m = "[]" and f = "[]" and t = "''db''"
            and v = "''4.8.0''" and this = example_conn and st = "store_of []"] h2
  obtain e' w1 w2 where
    r: "promise_of (request JSON_parse example_config ''4.8.0'' example_conn (store_of [])
       ?d (Some ?err, Some (response_of 500 ?raw), ?raw)) = Rejected e'"
    and c: "statusCode (response_of 500 ?raw) \<noteq> 0 \<longrightarrow>
       err_statusCode e' = Some (statusCode (response_of 500 ?raw))"
    and l: "layout w1" "layout w2"
    and m: "message e' =
         (if truthy (get_prop ?S ''missing_fields'') then [] @ '': '' @ []
          else (case Some ?err of
                  Some e0 \<Rightarrow> message e0
                | None \<Rightarrow> if get_prop ?S ''message'' = JUndefined then [] else [])) @
         (if truthy (get_prop ?S ''server_error'')
          then '' (Server Error:'' @ w1 @ ''db'' @ w2 @ '')'' else [])"
    by blast
  from c m have "e' = \<lparr>message = ''socket hang up (Server Error:'' @ w1 @ ''db'' @ w2 @ '')'',
                        err_statusCode = Some 500\<rparr>"
    by (cases e') (simp add: get_own_def response_of_def Error_of_def)
  with r l have second: "\<exists>w1 w2. layout w1 \<and> layout w2 \<and>
      promise_of (request JSON_parse example_config ''4.8.0'' example_conn (store_of [])
                    ?d (Some ?err, Some (response_of 500 ?raw), ?raw)) =
        Rejected \<lparr>message = ''socket hang up (Server Error:'' @ w1 @ ''db'' @ w2 @ '')'',
                  err_statusCode = Some 500\<rparr>"
    by blast
  from zero first p second show ?thesis
    by blast
qed

theorem request_failure_not_rejected_counterexample:
  "promise_of (request JSON_parse example_config ''4.8.0'' example_conn (store_of [])
                 ((descriptor ''/messages/1'')\<lparr>json := Some False\<rparr>)
                 (None, Some (response_of 502 (JStr ''<html>Bad Gateway</html>'')),
                  JStr ''<html>Bad Gateway</html>'')) =
     Thrown SyntaxError \<and>
   promise_of (request JSON_parse example_config ''4.8.0'' example_conn (store_of [])
                 (descriptor ''/threads/1'')
                 (None, Some (response_of 500 JNull), JNull)) =
     Thrown TypeError \<and>
   promise_of (request JSON_parse example_config ''4.8.0'' example_conn (store_of [])
                 (descriptor ''/threads/1'')
                 (None,
                  Some (response_of 422
                    (JObj [(''message'', JStr ''invalid''), (''missing_fields'', JStr [])])),
                  JObj [(''message'', JStr ''invalid''), (''missing_fields'', JStr [])])) =
     Rejected \<lparr>message = ''invalid'', err_statusCode = Some 422\<rparr> \<and>
   promise_of (request JSON_parse example_config ''4.8.0'' example_conn (store_of [])
                 (descriptor ''/threads/1'')
                 (None,
                  Some (response_of 422
                    (JObj [(''message'', JStr ''invalid''),
                           (''missing_fields'', JObj [(''toString'', JNum ''1'')])])),
                  JObj [(''message'', JStr ''invalid''),
                        (''missing_fields'', JObj [(''toString'', JNum ''1'')])])) =
     Thrown TypeError"
proof -
  have "JSON_parse ''<html>Bad Gateway</html>'' = None"
    by (simp add: JSON_parse_defs)
  then have "promise_of (request JSON_parse example_config ''4.8.0'' example_conn (store_of [])
                 ((descriptor ''/messages/1'')\<lparr>json := Some False\<rparr>)
                 (None, Some (response_of 502 (JStr ''<html>Bad Gateway</html>'')),
                  JStr ''<html>Bad Gateway</html>'')) = Thrown SyntaxError"
    by (simp add: request_not_inspected descriptor_def body_or_empty_def)
  moreover
  have i: "(if json (descriptor ''/threads/1'') = Some False
            then Option.bind (to_string (body_or_empty B)) JSON_parse
            else Some (body_or_empty B)) = Some (body_or_empty B)" for B
    by (simp add: descriptor_def)
  have "promise_of (request JSON_parse example_config ''4.8.0'' example_conn (store_of [])
                 (descriptor ''/threads/1'')
                 (None, Some (response_of 500 JNull), JNull)) = Thrown TypeError"
    by (simp add: request_inspected [OF i] body_or_empty_def response_of_def)
  moreover
  have "promise_of (request JSON_parse example_config ''4.8.0'' example_conn (store_of [])
                 (descriptor ''/threads/1'')
                 (None,
                  Some (response_of 422
                    (JObj [(''message'', JStr ''invalid''), (''missing_fields'', JStr [])])),
                  JObj [(''message'', JStr ''invalid''), (''missing_fields'', JStr [])])) =
     Rejected \<lparr>message = ''invalid'', err_statusCode = Some 422\<rparr>"
    by (simp add: request_inspected [OF i] body_or_empty_def response_of_def new_Error_def
          Error_of_def get_own_def)
  moreover
  have "promise_of (request JSON_parse example_config ''4.8.0'' example_conn (store_of [])
                 (descriptor ''/threads/1'')
                 (None,
                  Some (response_of 422
                    (JObj [(''message'', JStr ''invalid''),
                           (''missing_fields'', JObj [(''toString'', JNum ''1'')])])),
                  JObj [(''message'', JStr ''invalid''),
                        (''missing_fields'', JObj [(''toString'', JNum ''1'')])])) =
     Thrown TypeError"
    by (simp add: request_inspected [OF i] body_or_empty_def response_of_def new_Error_def
          Error_of_def get_own_def)
  ultimately show ?thesis
    by blast
qed

text \<open>
  The layout of the parenthesis, for the record: the template literal that builds it
  spans three source lines, and its line breaks and indentation are part of the message.
\<close>

lemma request_server_error_layout:
  "promise_of (request JSON_parse example_config ''4.8.0'' example_conn (store_of [])
                 (descriptor ''/threads/1'')
                 (None,
                  Some (response_of 500
                    (JObj [(''message'', JStr ''boom''), (''server_error'', JStr ''db'')])),
                  JObj [(''message'', JStr ''boom''), (''server_error'', JStr ''db'')])) =
     Rejected \<lparr>message = ''boom (Server Error:'' @ [CHR 0x0A] @ ''              db'' @
                          [CHR 0x0A] @ ''            )'',
               err_statusCode = Some 500\<rparr>"
proof -
  have i: "(if json (descriptor ''/threads/1'') = Some False
            then Option.bind (to_string (body_or_empty B)) JSON_parse
            else Some (body_or_empty B)) = Some (body_or_empty B)" for B
    by (simp add: descriptor_def)
  show ?thesis
    by (simp add: request_inspected [OF i] body_or_empty_def response_of_def new_Error_def
          Error_of_def get_own_def)
qed

text \<open>
  Claim C10, as the code has it. The descriptor's \<open>json\<close> is \<open>false\<close> and the transport
  delivers a response. The raw body is parsed before anything is decided: if the parse
  fails, the callback raises the SyntaxError, and the promise is neither rejected nor
  resolved (nor is it when the body cannot even be converted to the string to parse,
  which raises a TypeError); if the parse succeeds, the outcome is that of the same
  completion with \<open>json\<close> true and the parsed value for a body (\<open>JSON.parse\<close> never
  yields \<open>undefined\<close>, which alone the callback would replace by \<open>{}\<close>). Without a
  response the promise is rejected before anything is parsed.
\<close>

theorem request_json_false:
  assumes "json options = Some False"
  shows "(to_string (body_or_empty b) = Some raw \<and> P raw = None \<longrightarrow>
            promise_of (request P cfg v this st options (error, Some r, b)) =
              Thrown SyntaxError) \<and>
         (to_string (body_or_empty b) = None \<longrightarrow>
            promise_of (request P cfg v this st options (error, Some r, b)) =
              Thrown TypeError) \<and>
         (to_string (body_or_empty b) = Some raw \<and> P raw = Some parsed \<and>
          parsed \<noteq> JUndefined \<longrightarrow>
            promise_of (request P cfg v this st options (error, Some r, b)) =
            promise_of (request P cfg v this st (options\<lparr>json := Some True\<rparr>)
                          (error, Some r, parsed))) \<and>
         promise_of (request P cfg v this st options (error, None, b)) =
           Rejected (case error of Some e \<Rightarrow> e | None \<Rightarrow> Error_of ''No response'')"
proof -
  have "promise_of (request P cfg v this st options (error, Some r, b)) =
        promise_of (request P cfg v this st (options\<lparr>json := Some True\<rparr>) (error, Some r, parsed))"
    if p: "to_string (body_or_empty b) = Some raw" "P raw = Some parsed"
      and u: "parsed \<noteq> JUndefined"
  proof -
    have 1: "(if json options = Some False
              then Option.bind (to_string (body_or_empty b)) P
              else Some (body_or_empty b)) = Some parsed"
      using assms p by simp
    have 2: "(if json (options\<lparr>json := Some True\<rparr>) = Some False
              then Option.bind (to_string (body_or_empty parsed)) P
              else Some (body_or_empty parsed)) = Some parsed"
      using u by (simp add: body_or_empty_def)
    show ?thesis
      unfolding request_inspected [OF 1] request_inspected [OF 2] by simp
  qed
  moreover
  have "promise_of (request P cfg v this st options (error, Some r, b)) = Thrown SyntaxError"
    if "to_string (body_or_empty b) = Some raw" "P raw = None"
    using that by (rule request_not_inspected(2) [OF assms])
  moreover
  have "promise_of (request P cfg v this st options (error, Some r, b)) = Thrown TypeError"
    if "to_string (body_or_empty b) = None"
    using that by (rule request_not_inspected(1) [OF assms])
  moreover
  have "promise_of (request P cfg v this st options (error, None, b)) =
          Rejected (case error of Some e \<Rightarrow> e | None \<Rightarrow> Error_of ''No response'')"
    by (rule request_no_response)
  ultimately show ?thesis
    by blast
qed

theorem request_json_false_witness:
  "json ((descriptor ''/messages/1'')\<lparr>json := Some False\<rparr>) = Some False \<and>
   to_string (body_or_empty (JStr ''Not Found'')) = Some ''Not Found'' \<and>
   JSON_parse ''Not Found'' = None \<and>
   promise_of (request JSON_parse example_config ''4.8.0'' example_conn (store_of [])
                 ((descriptor ''/messages/1'')\<lparr>json := Some False\<rparr>)
                 (None, Some (response_of 404 (JStr ''Not Found'')), JStr ''Not Found'')) =
     Thrown SyntaxError \<and>
   to_string (body_or_empty (JObj [(''toString'', JNull)])) = None \<and>
   promise_of (request JSON_parse example_config ''4.8.0'' example_conn (store_of [])
                 ((descriptor ''/messages/1'')\<lparr>json := Some False\<rparr>)
                 (None, Some (response_of 200 (JObj [(''toString'', JNull)])),
                  JObj [(''toString'', JNull)])) =
     Thrown TypeError \<and>
   to_string (body_or_empty (JStr ''{\"message\":\"gone\"}'')) = Some ''{\"message\":\"gone\"}'' \<and>
   JSON_parse ''{\"message\":\"gone\"}'' = Some (JObj [(''message'', JStr ''gone'')]) \<and>
   promise_of (request JSON_parse example_config ''4.8.0'' example_conn (store_of [])
                 ((descriptor ''/messages/1'')\<lparr>json := Some False\<rparr>)
                 (None, Some (response_of 410 (JStr ''{\"message\":\"gone\"}'')),
                  JStr ''{\"message\":\"gone\"}'')) =
     Rejected \<lparr>message = ''gone'', err_statusCode = Some 410\<rparr>"
proof -
  let ?d = "(descriptor ''/messages/1'')\<lparr>json := Some False\<rparr>"
  have j: "json ?d = Some False"
    by simp
  have t1: "to_string (body_or_empty (JStr ''Not Found'')) = Some ''Not Found''"
    by (simp add: body_or_empty_def)
  have p1: "JSON_parse ''Not Found'' = None"
    by (simp add: JSON_parse_defs)
  have t0: "to_string (body_or_empty (JObj [(''toString'', JNull)])) = None"
    by (simp add: body_or_empty_def)
  have t2: "to_string (body_or_empty (JStr ''{\"message\":\"gone\"}'')) =
              Some ''{\"message\":\"gone\"}''"
    by (simp add: body_or_empty_def)
  have p2: "JSON_parse ''{\"message\":\"gone\"}'' = Some (JObj [(''message'', JStr ''gone'')])"
    by (simp add: JSON_parse_defs)
  let ?t = "(descriptor ''/messages/1'')\<lparr>json := Some True\<rparr>"
  have i: "(if json ?t = Some False
            then Option.bind (to_string (body_or_empty B)) JSON_parse
            else Some (body_or_empty B)) = Some (body_or_empty B)" for B
    by simp
  have g: "promise_of (request JSON_parse example_config ''4.8.0'' example_conn (store_of [])
             ?t
             (None, Some (response_of 410 (JStr ''{\"message\":\"gone\"}'')),
              JObj [(''message'', JStr ''gone'')])) =
           Rejected \<lparr>message = ''gone'', err_statusCode = Some 410\<rparr>"
    by (simp add: request_inspected [OF i] body_or_empty_def response_of_def new_Error_def
          Error_of_def get_own_def)
  show ?thesis
    using j t0 t1 p1 t2 p2 g
      request_json_false [OF j, where P = JSON_parse and b = "JStr ''Not Found''"
        and raw = "''Not Found''"
        and cfg = example_config and v = "''4.8.0''" and this = example_conn
        and st = "store_of []" and error = None
        and r = "response_of 404 (JStr ''Not Found'')"]
      request_json_false [OF j, where P = JSON_parse and b = "JObj [(''toString'', JNull)]"
        and cfg = example_config and v = "''4.8.0''" and this = example_conn
        and st = "store_of []" and error = None
        and r = "response_of 200 (JObj [(''toString'', JNull)])"]
      request_json_false [OF j, where P = JSON_parse and b = "JStr ''{\"message\":\"gone\"}''"
        and raw = "''{\"message\":\"gone\"}''"
        and parsed = "JObj [(''message'', JStr ''gone'')]"
        and cfg = example_config and v = "''4.8.0''" and this = example_conn
        and st = "store_of []" and error = None
        and r = "response_of 410 (JStr ''{\"message\":\"gone\"}'')"]
    by simp
qed

theorem request_parse_error_not_rejected_counterexample:
  "promise_of (request JSON_parse example_config ''4.8.0'' example_conn (store_of [])
                 ((descriptor ''/messages/1'')\<lparr>json := Some False\<rparr>)
                 (None, Some (response_of 200 (JStr ''oops'')), JStr ''oops'')) =
     Thrown SyntaxError"
proof -
  have "JSON_parse ''oops'' = None"
    by (simp add: JSON_parse_defs)
  then show ?thesis
    by (simp add: request_not_inspected descriptor_def body_or_empty_def)
qed

section \<open>Properties of the version compatibility checker\<close>

lemma hints_distinct:
  "dashboard_hint \<noteq> sdk_hint" "dashboard_hint \<noteq> []" "sdk_hint \<noteq> []"
  by (simp_all add: dashboard_hint_def sdk_hint_def)

text \<open>Below \<open>2^53\<close> in magnitude an integer is a Number as it stands.\<close>

lemma to_Number_exact:
  assumes "\<bar>i\<bar> < 2 ^ 53"
  shows "to_Number i = Finite i"
proof -
  from assms have "nat \<bar>i\<bar> < 2 ^ 53"
    by simp
  then have "round_nat (nat \<bar>i\<bar>) = nat \<bar>i\<bar>" "\<not> (2 :: nat) ^ 1024 \<le> nat \<bar>i\<bar>"
    by (simp_all add: round_nat_def)
  then show ?thesis
    by (simp add: to_Number_def Let_def)
qed

lemma parseInt_NaN:
  "parseInt s = NaN \<longleftrightarrow> mathInt s = None"
  by (simp add: parseInt_def to_Number_def Let_def split: option.splits)

lemma num_gt_NaN:
  "\<not> num_gt a NaN" "\<not> num_gt NaN a"
  by (cases a; simp)+

lemma num_gt_parseInt:
  "num_gt (parseInt s) (parseInt t) \<longleftrightarrow>
     (\<exists>m n. mathInt s = Some m \<and> mathInt t = Some n \<and> num_gt (to_Number m) (to_Number n))"
  by (cases "mathInt s"; cases "mathInt t") (simp_all add: parseInt_def num_gt_NaN)

lemma num_gt_neither:
  "\<not> num_gt a b \<and> \<not> num_gt b a \<longleftrightarrow> a = NaN \<or> b = NaN \<or> a = b"
  by (cases a; cases b) auto

text \<open>
  Claim C5, as the code has it. The checker returns the empty string when the two
  versions are equal, or when either of them is absent or empty. Otherwise it returns the
  warning that embeds both versions, followed by one hint or none. The leading component
  of each version is read by \<open>parseInt\<close>, which returns the integer it denotes as a
  Number, the nearest double: the dashboard hint follows exactly when both components
  denote an integer and the SDK's Number exceeds the server's, the hint to update the SDK
  exactly when both do and the server's Number exceeds the SDK's, and no hint exactly when
  the two Numbers are equal or one of the components denotes no integer. When both
  integers are below \<open>2^53\<close> in magnitude, the Numbers are the integers: the dashboard
  hint follows exactly when the SDK's integer is the greater, the hint to update the SDK
  exactly when the server's is, and none exactly when they are equal.
\<close>

theorem getWarningForVersion_cases:
  "(sdkApiVersion = apiVersion \<or> sdkApiVersion = None \<or> sdkApiVersion = Some [] \<or>
    apiVersion = None \<or> apiVersion = Some [] \<longrightarrow>
      getWarningForVersion sdkApiVersion apiVersion = []) \<and>
   (sdkApiVersion = Some sdk \<and> apiVersion = Some api \<and> sdk \<noteq> api \<and> sdk \<noteq> [] \<and> api \<noteq> [] \<longrightarrow>
      (\<exists>hint. getWarningForVersion sdkApiVersion apiVersion = warning_text sdk api @ hint \<and>
         (hint = dashboard_hint \<longleftrightarrow>
            (\<exists>m n. mathInt (split_dash_0 sdk) = Some m \<and>
                   mathInt (split_dash_0 api) = Some n \<and>
                   num_gt (to_Number m) (to_Number n))) \<and>
         (hint = sdk_hint \<longleftrightarrow>
            (\<exists>m n. mathInt (split_dash_0 sdk) = Some m \<and>
                   mathInt (split_dash_0 api) = Some n \<and>
                   num_gt (to_Number n) (to_Number m))) \<and>
         (hint = [] \<longleftrightarrow>
            mathInt (split_dash_0 sdk) = None \<or> mathInt (split_dash_0 api) = None \<or>
            parseInt (split_dash_0 sdk) = parseInt (split_dash_0 api)) \<and>
         (\<forall>m n. mathInt (split_dash_0 sdk) = Some m \<and> mathInt (split_dash_0 api) = Some n \<and>
                \<bar>m\<bar> < 2 ^ 53 \<and> \<bar>n\<bar> < 2 ^ 53 \<longrightarrow>
                  (hint = dashboard_hint \<longleftrightarrow> n < m) \<and>
                  (hint = sdk_hint \<longleftrightarrow> m < n) \<and>
                  (hint = [] \<longleftrightarrow> m = n))))"
proof (intro conjI impI)
  assume "sdkApiVersion = apiVersion \<or> sdkApiVersion = None \<or> sdkApiVersion = Some [] \<or>
          apiVersion = None \<or> apiVersion = Some []"
  then show "getWarningForVersion sdkApiVersion apiVersion = []"
    by (auto simp: getWarningForVersion_def split: option.splits)
next
  assume a: "sdkApiVersion = Some sdk \<and> apiVersion = Some api \<and> sdk \<noteq> api \<and>
             sdk \<noteq> [] \<and> api \<noteq> []"
  let ?s = "parseInt (split_dash_0 sdk)" and ?a = "parseInt (split_dash_0 api)"
  let ?ms = "mathInt (split_dash_0 sdk)" and ?ma = "mathInt (split_dash_0 api)"
  let ?hint = "if num_gt ?s ?a then dashboard_hint else if num_gt ?a ?s then sdk_hint else []"
  have x: "\<not> (num_gt ?s ?a \<and> num_gt ?a ?s)"
    by (cases ?s; cases ?a) auto
  have w: "getWarningForVersion sdkApiVersion apiVersion = warning_text sdk api @ ?hint"
    using a by (simp add: getWarningForVersion_def Let_def)
  have d: "?hint = dashboard_hint \<longleftrightarrow> num_gt ?s ?a"
    using hints_distinct by auto
  have u: "?hint = sdk_hint \<longleftrightarrow> num_gt ?a ?s"
    using hints_distinct x by auto
  have n: "?hint = [] \<longleftrightarrow> \<not> num_gt ?s ?a \<and> \<not> num_gt ?a ?s"
    using hints_distinct by auto
  have d': "?hint = dashboard_hint \<longleftrightarrow>
              (\<exists>m n. ?ms = Some m \<and> ?ma = Some n \<and> num_gt (to_Number m) (to_Number n))"
    by (rule trans [OF d num_gt_parseInt])
  have u': "?hint = sdk_hint \<longleftrightarrow>
              (\<exists>m n. ?ms = Some m \<and> ?ma = Some n \<and> num_gt (to_Number n) (to_Number m))"
  proof -
    have "num_gt ?a ?s \<longleftrightarrow>
            (\<exists>m n. ?ms = Some m \<and> ?ma = Some n \<and> num_gt (to_Number n) (to_Number m))"
      unfolding num_gt_parseInt by blast
    then show ?thesis
      by (rule trans [OF u])
  qed
  have n': "?hint = [] \<longleftrightarrow> ?ms = None \<or> ?ma = None \<or> ?s = ?a"
  proof -
    have "\<not> num_gt ?s ?a \<and> \<not> num_gt ?a ?s \<longleftrightarrow> ?ms = None \<or> ?ma = None \<or> ?s = ?a"
      unfolding num_gt_neither parseInt_NaN by blast
    then show ?thesis
      by (rule trans [OF n])
  qed
  have e: "(?hint = dashboard_hint \<longleftrightarrow> n < m) \<and> (?hint = sdk_hint \<longleftrightarrow> m < n) \<and>
           (?hint = [] \<longleftrightarrow> m = n)"
    if "?ms = Some m \<and> ?ma = Some n \<and> \<bar>m\<bar> < 2 ^ 53 \<and> \<bar>n\<bar> < 2 ^ 53" for m n
  proof -
    from that have "?s = Finite m" "?a = Finite n"
      by (simp_all add: parseInt_def to_Number_exact)
    then show ?thesis
      unfolding d u n by auto
  qed
  from w d' u' n' e show "\<exists>hint.
         getWarningForVersion sdkApiVersion apiVersion = warning_text sdk api @ hint \<and>
         (hint = dashboard_hint \<longleftrightarrow>
            (\<exists>m n. ?ms = Some m \<and> ?ma = Some n \<and> num_gt (to_Number m) (to_Number n))) \<and>
         (hint = sdk_hint \<longleftrightarrow>
            (\<exists>m n. ?ms = Some m \<and> ?ma = Some n \<and> num_gt (to_Number n) (to_Number m))) \<and>
         (hint = [] \<longleftrightarrow> ?ms = None \<or> ?ma = None \<or> ?s = ?a) \<and>
         (\<forall>m n. ?ms = Some m \<and> ?ma = Some n \<and> \<bar>m\<bar> < 2 ^ 53 \<and> \<bar>n\<bar> < 2 ^ 53 \<longrightarrow>
                  (hint = dashboard_hint \<longleftrightarrow> n < m) \<and>
                  (hint = sdk_hint \<longleftrightarrow> m < n) \<and>
                  (hint = [] \<longleftrightarrow> m = n))"
    by (intro exI [of _ ?hint] conjI allI impI) blast+
qed

theorem getWarningForVersion_cases_witness:
  "getWarningForVersion (Some ''2.1'') (Some ''2.1'') = [] \<and>
   getWarningForVersion (Some ''2.1'') None = [] \<and>
   mathInt (split_dash_0 ''2.1'') = Some 2 \<and> mathInt (split_dash_0 ''1.5'') = Some 1 \<and>
   getWarningForVersion (Some ''2.1'') (Some ''1.5'') =
     warning_text ''2.1'' ''1.5'' @ dashboard_hint \<and>
   mathInt (split_dash_0 ''3.0'') = Some 3 \<and>
   getWarningForVersion (Some ''2.1'') (Some ''3.0'') =
     warning_text ''2.1'' ''3.0'' @ sdk_hint \<and>
   mathInt (split_dash_0 ''2.1-beta'') = Some 2 \<and>
   getWarningForVersion (Some ''2.1'') (Some ''2.1-beta'') = warning_text ''2.1'' ''2.1-beta'' \<and>
   mathInt (split_dash_0 ''edge'') = None \<and>
   getWarningForVersion (Some ''2.1'') (Some ''edge'') = warning_text ''2.1'' ''edge''"
proof -
  have m: "mathInt (split_dash_0 ''2.1'') = Some 2" "mathInt (split_dash_0 ''1.5'') = Some 1"
    "mathInt (split_dash_0 ''3.0'') = Some 3" "mathInt (split_dash_0 ''2.1-beta'') = Some 2"
    "mathInt (split_dash_0 ''edge'') = None"
    by (simp_all add: mathInt_def split_dash_0_def is_ws_def is_digit_def digit_of_def
          digits_value_def)
  have b: "\<bar>1 :: int\<bar> < 2 ^ 53" "\<bar>2 :: int\<bar> < 2 ^ 53" "\<bar>3 :: int\<bar> < 2 ^ 53"
    by simp_all
  from getWarningForVersion_cases [of "Some ''2.1''" "Some ''2.1''"]
  have 1: "getWarningForVersion (Some ''2.1'') (Some ''2.1'') = []"
    by simp
  from getWarningForVersion_cases [of "Some ''2.1''" None]
  have 2: "getWarningForVersion (Some ''2.1'') None = []"
    by simp
  from getWarningForVersion_cases [of "Some ''2.1''" "Some ''1.5''" "''2.1''" "''1.5''"]
  obtain h1 where h1: "getWarningForVersion (Some ''2.1'') (Some ''1.5'') =
                         warning_text ''2.1'' ''1.5'' @ h1"
    and "\<forall>m n. mathInt (split_dash_0 ''2.1'') = Some m \<and>
               mathInt (split_dash_0 ''1.5'') = Some n \<and>
               \<bar>m\<bar> < 2 ^ 53 \<and> \<bar>n\<bar> < 2 ^ 53 \<longrightarrow>
                 (h1 = dashboard_hint \<longleftrightarrow> n < m) \<and> (h1 = sdk_hint \<longleftrightarrow> m < n) \<and>
                 (h1 = [] \<longleftrightarrow> m = n)"
    by auto
  with m b have "h1 = dashboard_hint \<longleftrightarrow> (1 :: int) < 2"
    by blast
  with h1 have 3: "getWarningForVersion (Some ''2.1'') (Some ''1.5'') =
                     warning_text ''2.1'' ''1.5'' @ dashboard_hint"
    by simp
  from getWarningForVersion_cases [of "Some ''2.1''" "Some ''3.0''" "''2.1''" "''3.0''"]
  obtain h2 where h2: "getWarningForVersion (Some ''2.1'') (Some ''3.0'') =
                         warning_text ''2.1'' ''3.0'' @ h2"
    and "\<forall>m n. mathInt (split_dash_0 ''2.1'') = Some m \<and>
               mathInt (split_dash_0 ''3.0'') = Some n \<and>
               \<bar>m\<bar> < 2 ^ 53 \<and> \<bar>n\<bar> < 2 ^ 53 \<longrightarrow>
                 (h2 = dashboard_hint \<longleftrightarrow> n < m) \<and> (h2 = sdk_hint \<longleftrightarrow> m < n) \<and>
                 (h2 = [] \<longleftrightarrow> m = n)"
    by auto
  with m b have "h2 = sdk_hint \<longleftrightarrow> (2 :: int) < 3"
    by blast
  with h2 have 4: "getWarningForVersion (Some ''2.1'') (Some ''3.0'') =
                     warning_text ''2.1'' ''3.0'' @ sdk_hint"
    by simp
  from getWarningForVersion_cases [of "Some ''2.1''" "Some ''2.1-beta''" "''2.1''" "''2.1-beta''"]
  obtain h3 where h3: "getWarningForVersion (Some ''2.1'') (Some ''2.1-beta'') =
                         warning_text ''2.1'' ''2.1-beta'' @ h3"
    and "\<forall>m n. mathInt (split_dash_0 ''2.1'') = Some m \<and>
               mathInt (split_dash_0 ''2.1-beta'') = Some n \<and>
               \<bar>m\<bar> < 2 ^ 53 \<and> \<bar>n\<bar> < 2 ^ 53 \<longrightarrow>
                 (h3 = dashboard_hint \<longleftrightarrow> n < m) \<and> (h3 = sdk_hint \<longleftrightarrow> m < n) \<and>
                 (h3 = [] \<longleftrightarrow> m = n)"
    by auto
  with m b have "h3 = [] \<longleftrightarrow> (2 :: int) = 2"
    by blast
  with h3 have 5: "getWarningForVersion (Some ''2.1'') (Some ''2.1-beta'') =
                     warning_text ''2.1'' ''2.1-beta''"
    by simp
  from getWarningForVersion_cases [of "Some ''2.1''" "Some ''edge''" "''2.1''" "''edge''"]
  obtain h4 where h4: "getWarningForVersion (Some ''2.1'') (Some ''edge'') =
                         warning_text ''2.1'' ''edge'' @ h4"
    and "h4 = [] \<longleftrightarrow>
           mathInt (split_dash_0 ''2.1'') = None \<or> mathInt (split_dash_0 ''edge'') = None \<or>
           parseInt (split_dash_0 ''2.1'') = parseInt (split_dash_0 ''edge'')"
    by auto
  with m have "h4 = []"
    by blast
  with h4 have 6: "getWarningForVersion (Some ''2.1'') (Some ''edge'') =
                     warning_text ''2.1'' ''edge''"
    by simp
  from m 1 2 3 4 5 6 show ?thesis
    by blast
qed

theorem getWarningForVersion_absent_sdk_counterexample:
  "None \<noteq> Some ''2.0'' \<and> getWarningForVersion None (Some ''2.0'') = [] \<and>
   Some [] \<noteq> Some ''2.0'' \<and> getWarningForVersion (Some []) (Some ''2.0'') = [] \<and>
   mathInt (split_dash_0 ''9007199254740993'') = Some 9007199254740993 \<and>
   mathInt (split_dash_0 ''9007199254740992'') = Some 9007199254740992 \<and>
   getWarningForVersion (Some ''9007199254740993'') (Some ''9007199254740992'') =
     warning_text ''9007199254740993'' ''9007199254740992''"
proof -
  have m: "mathInt (split_dash_0 ''9007199254740993'') = Some 9007199254740993"
    "mathInt (split_dash_0 ''9007199254740992'') = Some 9007199254740992"
    by (simp_all add: mathInt_def split_dash_0_def is_ws_def is_digit_def digit_of_def
          digits_value_def)
  have r: "to_Number 9007199254740993 = Finite 9007199254740992"
    "to_Number 9007199254740992 = Finite 9007199254740992"
    by (simp_all add: to_Number_def round_nat_def shift_for.simps Let_def)
  have "getWarningForVersion (Some ''9007199254740993'') (Some ''9007199254740992'') =
          warning_text ''9007199254740993'' ''9007199254740992''"
    by (simp add: getWarningForVersion_def parseInt_def m r Let_def)
  with m show ?thesis
    by (simp add: getWarningForVersion_def)
qed

section \<open>Properties of the class \<open>Nylas\<close>\<close>

lemma truthy_get_prop:
  "truthy (get_prop b k) \<Longrightarrow> truthy b"
  by (cases b) simp_all

text \<open>
  Claim C6, as the code has it. \<open>exchangeCodeForToken\<close> throws, before any request is
  issued, when client id or client secret is unconfigured or the code is empty. Otherwise
  it issues the token request, and on completion: if the transport reported an error, it
  rejects with that very error; if it reported none and the body has no truthy
  \<open>access_token\<close>, it rejects with a new error, whose message is
  \<open>No access token in response\<close> when the body's \<open>message\<close> is not truthy, and the
  body's \<open>message\<close> as a string when it is truthy and converts to one; when it is truthy
  and does not convert, making the error raises a TypeError, and the promise is neither
  rejected nor resolved, nor the legacy callback called; and if the body has a truthy
  \<open>access_token\<close>, it resolves with it. The legacy callback, when supplied, is called
  with the same error, or with \<open>null\<close> and the token.
\<close>

theorem exchangeCodeForToken_cases:
  "(clientId this = [] \<or> clientSecret (settings this) = [] \<or> code = [] \<longrightarrow>
      (\<exists>m. exchangeCodeForToken this code cb (error, b) = Inl (Error m))) \<and>
   (clientId this \<noteq> [] \<and> clientSecret (settings this) \<noteq> [] \<and> code \<noteq> [] \<longrightarrow>
      (\<exists>req out call.
         exchangeCodeForToken this code cb (error, b) = Inr (req, out, call) \<and>
         tr_url req = tmpl (apiServer (settings this)) @ ''/oauth/token'' \<and>
         (\<forall>e. error = Some e \<longrightarrow>
            out = Rejected e \<and> call = (if cb then Some (Callback_error e) else None)) \<and>
         (error = None \<and> \<not> truthy (get_prop b ''access_token'') \<and>
          \<not> truthy (get_prop b ''message'') \<longrightarrow>
            out = Rejected \<lparr>message = ''No access token in response'', err_statusCode = None\<rparr> \<and>
            call = (if cb
                    then Some (Callback_error
                      \<lparr>message = ''No access token in response'', err_statusCode = None\<rparr>)
                    else None)) \<and>
         (\<forall>m. error = None \<and> \<not> truthy (get_prop b ''access_token'') \<and>
              truthy (get_prop b ''message'') \<and> to_string (get_prop b ''message'') = Some m \<longrightarrow>
            out = Rejected \<lparr>message = m, err_statusCode = None\<rparr> \<and>
            call = (if cb
                    then Some (Callback_error \<lparr>message = m, err_statusCode = None\<rparr>)
                    else None)) \<and>
         (error = None \<and> \<not> truthy (get_prop b ''access_token'') \<and>
          truthy (get_prop b ''message'') \<and> to_string (get_prop b ''message'') = None \<longrightarrow>
            out = Thrown TypeError \<and> call = None) \<and>
         (error = None \<and> truthy (get_prop b ''access_token'') \<longrightarrow>
            out = Resolved (get_prop b ''access_token'') \<and>
            call = (if cb then Some (Callback_token (get_prop b ''access_token'')) else None))))"
proof (intro conjI impI)
  assume "clientId this = [] \<or> clientSecret (settings this) = [] \<or> code = []"
  then show "\<exists>m. exchangeCodeForToken this code cb (error, b) = Inl (Error m)"
    by (auto simp: exchangeCodeForToken_def)
next
  assume a: "clientId this \<noteq> [] \<and> clientSecret (settings this) \<noteq> [] \<and> code \<noteq> []"
  let ?req = "\<lparr>tr_method = ''GET'', tr_json = True,
               tr_url = tmpl (apiServer (settings this)) @ ''/oauth/token'',
               tr_qs = [(''client_id'', clientId this),
                        (''client_secret'', clientSecret (settings this)),
                        (''grant_type'', ''authorization_code''),
                        (''code'', code)]\<rparr>"
  let ?out = "fst (exchange_callback cb error b)"
  let ?call = "snd (exchange_callback cb error b)"
  have t: "truthy b" if "truthy (get_prop b k)" for k
    using that by (rule truthy_get_prop)
  have m: "(truthy b \<and> truthy (get_prop b ''message'')) = truthy (get_prop b ''message'')"
    using t by blast
  have k: "(\<not> truthy b \<or> \<not> truthy (get_prop b ''access_token'')) =
           (\<not> truthy (get_prop b ''access_token''))"
    using t by blast
  have u: "get_prop b ''message'' \<noteq> JUndefined" if "truthy (get_prop b ''message'')"
    using that by auto
  have 0: "exchangeCodeForToken this code cb (error, b) = Inr (?req, ?out, ?call)"
    using a by (simp add: exchangeCodeForToken_def)
  have 1: "?out = Rejected e \<and> ?call = (if cb then Some (Callback_error e) else None)"
    if "error = Some e" for e
    using that by (simp add: exchange_callback_def Let_def)
  have 2: "?out = Rejected \<lparr>message = ''No access token in response'', err_statusCode = None\<rparr> \<and>
           ?call = (if cb
                    then Some (Callback_error
                      \<lparr>message = ''No access token in response'', err_statusCode = None\<rparr>)
                    else None)"
    if "error = None \<and> \<not> truthy (get_prop b ''access_token'') \<and>
        \<not> truthy (get_prop b ''message'')"
    using that by (simp add: exchange_callback_def Let_def k m new_Error_def Error_of_def)
  have 3: "?out = Rejected \<lparr>message = x, err_statusCode = None\<rparr> \<and>
           ?call = (if cb
                    then Some (Callback_error \<lparr>message = x, err_statusCode = None\<rparr>)
                    else None)"
    if "error = None \<and> \<not> truthy (get_prop b ''access_token'') \<and>
        truthy (get_prop b ''message'') \<and> to_string (get_prop b ''message'') = Some x" for x
    using that u t [of "''message''"]
    by (simp add: exchange_callback_def Let_def k new_Error_def Error_of_def)
  have 4: "?out = Thrown TypeError \<and> ?call = None"
    if "error = None \<and> \<not> truthy (get_prop b ''access_token'') \<and>
        truthy (get_prop b ''message'') \<and> to_string (get_prop b ''message'') = None"
    using that u t [of "''message''"]
    by (simp add: exchange_callback_def Let_def k new_Error_def Error_of_def)
  have 5: "?out = Resolved (get_prop b ''access_token'') \<and>
           ?call = (if cb then Some (Callback_token (get_prop b ''access_token'')) else None)"
    if "error = None \<and> truthy (get_prop b ''access_token'')"
    using that t [of "''access_token''"] by (simp add: exchange_callback_def Let_def)
  show "\<exists>req out call.
         exchangeCodeForToken this code cb (error, b) = Inr (req, out, call) \<and>
         tr_url req = tmpl (apiServer (settings this)) @ ''/oauth/token'' \<and>
         (\<forall>e. error = Some e \<longrightarrow>
            out = Rejected e \<and> call = (if cb then Some (Callback_error e) else None)) \<and>
         (error = None \<and> \<not> truthy (get_prop b ''access_token'') \<and>
          \<not> truthy (get_prop b ''message'') \<longrightarrow>
            out = Rejected \<lparr>message = ''No access token in response'', err_statusCode = None\<rparr> \<and>
            call = (if cb
                    then Some (Callback_error
                      \<lparr>message = ''No access token in response'', err_statusCode = None\<rparr>)
                    else None)) \<and>
         (\<forall>m. error = None \<and> \<not> truthy (get_prop b ''access_token'') \<and>
              truthy (get_prop b ''message'') \<and> to_string (get_prop b ''message'') = Some m \<longrightarrow>
            out = Rejected \<lparr>message = m, err_statusCode = None\<rparr> \<and>
            call = (if cb
                    then Some (Callback_error \<lparr>message = m, err_statusCode = None\<rparr>)
                    else None)) \<and>
         (error = None \<and> \<not> truthy (get_prop b ''access_token'') \<and>
          truthy (get_prop b ''message'') \<and> to_string (get_prop b ''message'') = None \<longrightarrow>
            out = Thrown TypeError \<and> call = None) \<and>
         (error = None \<and> truthy (get_prop b ''access_token'') \<longrightarrow>
            out = Resolved (get_prop b ''access_token'') \<and>
            call = (if cb then Some (Callback_token (get_prop b ''access_token'')) else None))"
  proof (intro exI [of _ ?req] exI [of _ ?out] exI [of _ ?call] conjI allI impI)
    show "exchangeCodeForToken this code cb (error, b) = Inr (?req, ?out, ?call)"
      by (rule 0)
    show "tr_url ?req = tmpl (apiServer (settings this)) @ ''/oauth/token''"
      by simp
  next
    fix e assume "error = Some e"
    then show "?out = Rejected e" "?call = (if cb then Some (Callback_error e) else None)"
      using 1 by simp_all
  next
    assume h: "error = None \<and> \<not> truthy (get_prop b ''access_token'') \<and>
               \<not> truthy (get_prop b ''message'')"
    from 2 [OF h]
    show "?out = Rejected \<lparr>message = ''No access token in response'', err_statusCode = None\<rparr>"
      "?call = (if cb
                then Some (Callback_error
                  \<lparr>message = ''No access token in response'', err_statusCode = None\<rparr>)
                else None)"
      by (rule conjunct1, rule conjunct2)
  next
    fix x
    assume h: "error = None \<and> \<not> truthy (get_prop b ''access_token'') \<and>
               truthy (get_prop b ''message'') \<and> to_string (get_prop b ''message'') = Some x"
    from 3 [OF h]
    show "?out = Rejected \<lparr>message = x, err_statusCode = None\<rparr>"
      "?call = (if cb
                then Some (Callback_error \<lparr>message = x, err_statusCode = None\<rparr>)
                else None)"
      by (rule conjunct1, rule conjunct2)
  next
    assume h: "error = None \<and> \<not> truthy (get_prop b ''access_token'') \<and>
               truthy (get_prop b ''message'') \<and> to_string (get_prop b ''message'') = None"
    from 4 [OF h] show "?out = Thrown TypeError" "?call = None"
      by (rule conjunct1, rule conjunct2)
  next
    assume h: "error = None \<and> truthy (get_prop b ''access_token'')"
    from 5 [OF h]
    show "?out = Resolved (get_prop b ''access_token'')"
      "?call = (if cb then Some (Callback_token (get_prop b ''access_token'')) else None)"
      by (rule conjunct1, rule conjunct2)
  qed
qed

theorem exchangeCodeForToken_cases_witness:
  "(\<exists>m. exchangeCodeForToken example_nylas [] False (None, JUndefined) = Inl (Error m)) \<and>
   exchangeCodeForToken example_nylas ''c0de'' True (None, JObj [(''error'', JStr ''bad'')]) =
     Inr (\<lparr>tr_method = ''GET'', tr_json = True,
           tr_url = ''https://api.nylas.com/oauth/token'',
           tr_qs = [(''client_id'', ''abc''), (''client_secret'', ''s3cret''),
                    (''grant_type'', ''authorization_code''), (''code'', ''c0de'')]\<rparr>,
          Rejected \<lparr>message = ''No access token in response'', err_statusCode = None\<rparr>,
          Some (Callback_error
                  \<lparr>message = ''No access token in response'', err_statusCode = None\<rparr>)) \<and>
   exchangeCodeForToken example_nylas ''c0de'' True
       (None, JObj [(''message'', JStr ''Invalid code'')]) =
     Inr (\<lparr>tr_method = ''GET'', tr_json = True,
           tr_url = ''https://api.nylas.com/oauth/token'',
           tr_qs = [(''client_id'', ''abc''), (''client_secret'', ''s3cret''),
                    (''grant_type'', ''authorization_code''), (''code'', ''c0de'')]\<rparr>,
          Rejected \<lparr>message = ''Invalid code'', err_statusCode = None\<rparr>,
          Some (Callback_error \<lparr>message = ''Invalid code'', err_statusCode = None\<rparr>)) \<and>
   exchangeCodeForToken example_nylas ''c0de'' True
       (None, JObj [(''message'', JObj [(''toString'', JNull)])]) =
     Inr (\<lparr>tr_method = ''GET'', tr_json = True,
           tr_url = ''https://api.nylas.com/oauth/token'',
           tr_qs = [(''client_id'', ''abc''), (''client_secret'', ''s3cret''),
                    (''grant_type'', ''authorization_code''), (''code'', ''c0de'')]\<rparr>,
          Thrown TypeError, None) \<and>
   exchangeCodeForToken example_nylas ''c0de'' True
       (None, JObj [(''access_token'', JStr ''t0ken'')]) =
     Inr (\<lparr>tr_method = ''GET'', tr_json = True,
           tr_url = ''https://api.nylas.com/oauth/token'',
           tr_qs = [(''client_id'', ''abc''), (''client_secret'', ''s3cret''),
                    (''grant_type'', ''authorization_code''), (''code'', ''c0de'')]\<rparr>,
          Resolved (JStr ''t0ken''),
          Some (Callback_token (JStr ''t0ken''))) \<and>
   exchangeCodeForToken example_nylas ''c0de'' True
       (Some \<lparr>message = ''socket hang up'', err_statusCode = None\<rparr>,
        JObj [(''access_token'', JStr ''t0ken'')]) =
     Inr (\<lparr>tr_method = ''GET'', tr_json = True,
           tr_url = ''https://api.nylas.com/oauth/token'',
           tr_qs = [(''client_id'', ''abc''), (''client_secret'', ''s3cret''),
                    (''grant_type'', ''authorization_code''), (''code'', ''c0de'')]\<rparr>,
          Rejected \<lparr>message = ''socket hang up'', err_statusCode = None\<rparr>,
          Some (Callback_error \<lparr>message = ''socket hang up'', err_statusCode = None\<rparr>))"
proof -
  let ?req = "\<lparr>tr_method = ''GET'', tr_json = True,
           tr_url = ''https://api.nylas.com/oauth/token'',
           tr_qs = [(''client_id'', ''abc''), (''client_secret'', ''s3cret''),
                    (''grant_type'', ''authorization_code''), (''code'', ''c0de'')]\<rparr>"
  from exchangeCodeForToken_cases [of example_nylas "[]" False None "JUndefined"]
  have c1: "\<exists>m. exchangeCodeForToken example_nylas [] False (None, JUndefined) = Inl (Error m)"
    by (simp add: exchangeCodeForToken_def exchange_callback_def example_nylas_def
          example_config_def tmpl_def get_own_def new_Error_def Error_of_def Let_def)
  from exchangeCodeForToken_cases [of example_nylas "''c0de''" True None "JObj [(''error'', JStr ''bad'')]"]
  have c2: "exchangeCodeForToken example_nylas ''c0de'' True (None, JObj [(''error'', JStr ''bad'')]) =
     Inr (?req,
          Rejected \<lparr>message = ''No access token in response'', err_statusCode = None\<rparr>,
          Some (Callback_error
                  \<lparr>message = ''No access token in response'', err_statusCode = None\<rparr>))"
    by (simp add: exchangeCodeForToken_def exchange_callback_def example_nylas_def
          example_config_def tmpl_def get_own_def new_Error_def Error_of_def Let_def)
  from exchangeCodeForToken_cases [of example_nylas "''c0de''" True None "JObj [(''message'', JStr ''Invalid code'')]"]
  have c3: "exchangeCodeForToken example_nylas ''c0de'' True
       (None, JObj [(''message'', JStr ''Invalid code'')]) =
     Inr (?req,
          Rejected \<lparr>message = ''Invalid code'', err_statusCode = None\<rparr>,
          Some (Callback_error \<lparr>message = ''Invalid code'', err_statusCode = None\<rparr>))"
    by (simp add: exchangeCodeForToken_def exchange_callback_def example_nylas_def
          example_config_def tmpl_def get_own_def new_Error_def Error_of_def Let_def)
  from exchangeCodeForToken_cases [of example_nylas "''c0de''" True None "JObj [(''message'', JObj [(''toString'', JNull)])]"]
  have c4: "exchangeCodeForToken example_nylas ''c0de'' True
       (None, JObj [(''message'', JObj [(''toString'', JNull)])]) =
     Inr (?req, Thrown TypeError, None)"
    by (simp add: exchangeCodeForToken_def exchange_callback_def example_nylas_def
          example_config_def tmpl_def get_own_def new_Error_def Error_of_def Let_def)
  from exchangeCodeForToken_cases [of example_nylas "''c0de''" True None "JObj [(''access_token'', JStr ''t0ken'')]"]
  have c5: "exchangeCodeForToken example_nylas ''c0de'' True
       (None, JObj [(''access_token'', JStr ''t0ken'')]) =
     Inr (?req, Resolved (JStr ''t0ken''), Some (Callback_token (JStr ''t0ken'')))"
    by (simp add: exchangeCodeForToken_def exchange_callback_def example_nylas_def
          example_config_def tmpl_def get_own_def new_Error_def Error_of_def Let_def)
  from exchangeCodeForToken_cases [of example_nylas "''c0de''" True
      "Some \<lparr>message = ''socket hang up'', err_statusCode = None\<rparr>"
      "JObj [(''access_token'', JStr ''t0ken'')]"]
  have c6: "exchangeCodeForToken example_nylas ''c0de'' True
       (Some \<lparr>message = ''socket hang up'', err_statusCode = None\<rparr>,
        JObj [(''access_token'', JStr ''t0ken'')]) =
     Inr (?req,
          Rejected \<lparr>message = ''socket hang up'', err_statusCode = None\<rparr>,
          Some (Callback_error \<lparr>message = ''socket hang up'', err_statusCode = None\<rparr>))"
    by (simp add: exchangeCodeForToken_def exchange_callback_def example_nylas_def
          example_config_def tmpl_def get_own_def new_Error_def Error_of_def Let_def)
  from c1 c2 c3 c4 c5 c6 show ?thesis
    by (intro conjI)
qed

theorem exchangeCodeForToken_transport_error_counterexample:
  "exchangeCodeForToken example_nylas ''c0de'' False
       (Some \<lparr>message = ''connect ECONNREFUSED'', err_statusCode = None\<rparr>, JUndefined) =
     Inr (\<lparr>tr_method = ''GET'', tr_json = True,
           tr_url = ''https://api.nylas.com/oauth/token'',
           tr_qs = [(''client_id'', ''abc''), (''client_secret'', ''s3cret''),
                    (''grant_type'', ''authorization_code''), (''code'', ''c0de'')]\<rparr>,
          Rejected \<lparr>message = ''connect ECONNREFUSED'', err_statusCode = None\<rparr>,
          None) \<and>
   exchangeCodeForToken example_nylas ''c0de'' True (None, JObj [(''message'', JStr [])]) =
     Inr (\<lparr>tr_method = ''GET'', tr_json = True,
           tr_url = ''https://api.nylas.com/oauth/token'',
           tr_qs = [(''client_id'', ''abc''), (''client_secret'', ''s3cret''),
                    (''grant_type'', ''authorization_code''), (''code'', ''c0de'')]\<rparr>,
          Rejected \<lparr>message = ''No access token in response'', err_statusCode = None\<rparr>,
          Some (Callback_error
                  \<lparr>message = ''No access token in response'', err_statusCode = None\<rparr>)) \<and>
   exchangeCodeForToken example_nylas ''c0de'' True
       (None, JObj [(''message'', JObj [(''toString'', JNull)])]) =
     Inr (\<lparr>tr_method = ''GET'', tr_json = True,
           tr_url = ''https://api.nylas.com/oauth/token'',
           tr_qs = [(''client_id'', ''abc''), (''client_secret'', ''s3cret''),
                    (''grant_type'', ''authorization_code''), (''code'', ''c0de'')]\<rparr>,
          Thrown TypeError, None)"
  by (simp add: exchangeCodeForToken_def exchange_callback_def example_nylas_def
        example_config_def tmpl_def get_own_def new_Error_def Error_of_def Let_def)

lemma indexOf_from_absent:
  "0 \<le> i \<Longrightarrow> (indexOf_from s sub i = - 1) = (\<not> (\<exists>u w. s = u @ sub @ w))"
proof (induction s arbitrary: i)
  case Nil
  then show ?case by auto
next
  case (Cons c cs)
  show ?case
  proof (cases "take (length sub) (c # cs) = sub")
    case True
    then have "c # cs = [] @ sub @ drop (length sub) (c # cs)"
      by (metis append_Nil append_take_drop_id)
    then have "\<exists>u w. c # cs = u @ sub @ w"
      by blast
    with True Cons.prems show ?thesis
      by simp
  next
    case False
    have "(\<exists>u w. c # cs = u @ sub @ w) = (\<exists>u w. cs = u @ sub @ w)"
    proof
      assume "\<exists>u w. c # cs = u @ sub @ w"
      then obtain u w where d: "c # cs = u @ sub @ w"
        by blast
      show "\<exists>u w. cs = u @ sub @ w"
      proof (cases u)
        case Nil
        with d have "take (length sub) (c # cs) = sub"
          by simp
        with False show ?thesis
          by simp
      next
        case (Cons x xs)
        with d have "cs = xs @ sub @ w"
          by simp
        then show ?thesis
          by blast
      qed
    next
      assume "\<exists>u w. cs = u @ sub @ w"
      then obtain u w where "cs = u @ sub @ w"
        by blast
      then have "c # cs = (c # u) @ sub @ w"
        by simp
      then show "\<exists>u w. c # cs = u @ sub @ w"
        by blast
    qed
    moreover have "0 \<le> i + 1"
      using Cons.prems by simp
    ultimately show ?thesis
      using False Cons.IH [of "i + 1"] by simp
  qed
qed

lemma indexOf_absent:
  "(indexOf s sub = - 1) = (\<not> (\<exists>u w. s = u @ sub @ w))"
  by (simp add: indexOf_def indexOf_from_absent)

text \<open>
  Claim C7, as the code has it. \<open>config\<close> throws when a non-empty \<open>apiServer\<close> is
  supplied that contains no \<open>://\<close>. Otherwise it returns, and the store holds: the
  supplied client id, and the supplied client secret, each only if it is non-empty (an
  empty one leaves the stored value as it was); and for \<open>apiServer\<close> the supplied
  value, or the production URL when none, or the empty string, was supplied.
\<close>

theorem Nylas_config_cases:
  "(arg_apiServer args = Some a \<and> a \<noteq> [] \<and> \<not> (\<exists>u w. a = u @ ''://'' @ w) \<longrightarrow>
      (\<exists>m. Nylas_config this args = Inl (Error m))) \<and>
   (arg_apiServer args = None \<or> arg_apiServer args = Some [] \<or>
    (\<exists>u w. arg_apiServer args = Some (u @ ''://'' @ w)) \<longrightarrow>
      (\<exists>this'. Nylas_config this args = Inr this' \<and>
         clientId this' = (if arg_clientId args = [] then clientId this else arg_clientId args) \<and>
         clientSecret (settings this') =
           (if arg_clientSecret args = [] then clientSecret (settings this)
            else arg_clientSecret args) \<and>
         apiServer (settings this') =
           Some (case arg_apiServer args of
                   None \<Rightarrow> ''https://api.nylas.com''
                 | Some s \<Rightarrow> if s = [] then ''https://api.nylas.com'' else s)))"
proof (intro conjI impI)
  assume "arg_apiServer args = Some a \<and> a \<noteq> [] \<and> \<not> (\<exists>u w. a = u @ ''://'' @ w)"
  then show "\<exists>m. Nylas_config this args = Inl (Error m)"
    by (simp add: Nylas_config_def indexOf_absent)
next
  assume "arg_apiServer args = None \<or> arg_apiServer args = Some [] \<or>
          (\<exists>u w. arg_apiServer args = Some (u @ ''://'' @ w))"
  then have "\<not> (case arg_apiServer args of None \<Rightarrow> False
                | Some s \<Rightarrow> s \<noteq> [] \<and> indexOf s ''://'' = - 1)"
  proof (elim disjE exE)
    assume "arg_apiServer args = None"
    then show ?thesis by simp
  next
    assume "arg_apiServer args = Some []"
    then show ?thesis by simp
  next
    fix u w
    assume 3: "arg_apiServer args = Some (u @ ''://'' @ w)"
    have "\<exists>u' w'. u @ ''://'' @ w = u' @ ''://'' @ w'"
      by (intro exI) (rule refl)
    then have "indexOf (u @ ''://'' @ w) ''://'' \<noteq> - 1"
      unfolding indexOf_absent by simp
    with 3 show ?thesis
      by (simp del: append.simps)
  qed
  then show "\<exists>this'. Nylas_config this args = Inr this' \<and>
         clientId this' = (if arg_clientId args = [] then clientId this else arg_clientId args) \<and>
         clientSecret (settings this') =
           (if arg_clientSecret args = [] then clientSecret (settings this)
            else arg_clientSecret args) \<and>
         apiServer (settings this') =
           Some (case arg_apiServer args of
                   None \<Rightarrow> ''https://api.nylas.com''
                 | Some s \<Rightarrow> if s = [] then ''https://api.nylas.com'' else s)"
    by (simp add: Nylas_config_def setClientSecret_def setApiServer_def Let_def
          split: option.splits)
qed

theorem Nylas_config_cases_witness:
  "\<not> (\<exists>u w. ''api.example.com'' = u @ ''://'' @ w) \<and>
   stored (Nylas_config example_nylas
             \<lparr>arg_clientId = ''id1'', arg_clientSecret = ''sec1'',
              arg_apiServer = Some ''api.example.com''\<rparr>) = None \<and>
   (\<exists>u w. ''https://api.example.com'' = u @ ''://'' @ w) \<and>
   stored (Nylas_config example_nylas
             \<lparr>arg_clientId = ''id1'', arg_clientSecret = ''sec1'',
              arg_apiServer = Some ''https://api.example.com''\<rparr>) =
     Some (''id1'', ''sec1'', Some ''https://api.example.com'') \<and>
   stored (Nylas_config example_nylas
             \<lparr>arg_clientId = ''id1'', arg_clientSecret = ''sec1'', arg_apiServer = None\<rparr>) =
     Some (''id1'', ''sec1'', Some ''https://api.nylas.com'')"
proof -
  let ?A1 = "\<lparr>arg_clientId = ''id1'', arg_clientSecret = ''sec1'',
              arg_apiServer = Some ''api.example.com''\<rparr>"
  let ?A2 = "\<lparr>arg_clientId = ''id1'', arg_clientSecret = ''sec1'',
              arg_apiServer = Some ''https://api.example.com''\<rparr>"
  let ?A3 = "\<lparr>arg_clientId = ''id1'', arg_clientSecret = ''sec1'', arg_apiServer = None\<rparr>"
  have "indexOf ''api.example.com'' ''://'' = - 1"
    by (simp add: indexOf_def)
  then have n: "\<not> (\<exists>u w. ''api.example.com'' = u @ ''://'' @ w)"
    unfolding indexOf_absent .
  have "''https://api.example.com'' = ''https'' @ ''://'' @ ''api.example.com''"
    by simp
  then have e: "\<exists>u w. ''https://api.example.com'' = u @ ''://'' @ w"
    by (intro exI)
  have "arg_apiServer ?A1 = Some ''api.example.com'' \<and> ''api.example.com'' \<noteq> [] \<and>
        \<not> (\<exists>u w. ''api.example.com'' = u @ ''://'' @ w)"
    using n by simp
  then have g1: "\<exists>m. Nylas_config example_nylas ?A1 = Inl (Error m)"
    using Nylas_config_cases [of ?A1 "''api.example.com''" example_nylas] by blast
  have "\<exists>u w. arg_apiServer ?A2 = Some (u @ ''://'' @ w)"
    using e by simp
  then have g2: "\<exists>this'. Nylas_config example_nylas ?A2 = Inr this' \<and>
         clientId this' = (if arg_clientId ?A2 = [] then clientId example_nylas
                           else arg_clientId ?A2) \<and>
         clientSecret (settings this') =
           (if arg_clientSecret ?A2 = [] then clientSecret (settings example_nylas)
            else arg_clientSecret ?A2) \<and>
         apiServer (settings this') =
           Some (case arg_apiServer ?A2 of
                   None \<Rightarrow> ''https://api.nylas.com''
                 | Some s \<Rightarrow> if s = [] then ''https://api.nylas.com'' else s)"
    using Nylas_config_cases [of ?A2 "[]" example_nylas] by blast
  have "arg_apiServer ?A3 = None"
    by simp
  then have g3: "\<exists>this'. Nylas_config example_nylas ?A3 = Inr this' \<and>
         clientId this' = (if arg_clientId ?A3 = [] then clientId example_nylas
                           else arg_clientId ?A3) \<and>
         clientSecret (settings this') =
           (if arg_clientSecret ?A3 = [] then clientSecret (settings example_nylas)
            else arg_clientSecret ?A3) \<and>
         apiServer (settings this') =
           Some (case arg_apiServer ?A3 of
                   None \<Rightarrow> ''https://api.nylas.com''
                 | Some s \<Rightarrow> if s = [] then ''https://api.nylas.com'' else s)"
    using Nylas_config_cases [of ?A3 "[]" example_nylas] by blast
  from g1 have s1: "stored (Nylas_config example_nylas ?A1) = None"
    by (auto simp: stored_def)
  from g2 have s2: "stored (Nylas_config example_nylas ?A2) =
      Some (''id1'', ''sec1'', Some ''https://api.example.com'')"
    by (auto simp: stored_def)
  from g3 have s3: "stored (Nylas_config example_nylas ?A3) =
      Some (''id1'', ''sec1'', Some ''https://api.nylas.com'')"
    by (auto simp: stored_def)
  from n e s1 s2 s3 show ?thesis
    by blast
qed

theorem Nylas_config_empty_credentials_counterexample:
  "stored (Inr example_nylas) = Some (''abc'', ''s3cret'', Some ''https://api.nylas.com'') \<and>
   stored (Nylas_config example_nylas
             \<lparr>arg_clientId = [], arg_clientSecret = [], arg_apiServer = None\<rparr>) =
     Some (''abc'', ''s3cret'', Some ''https://api.nylas.com'')"
  by (simp add: stored_def Nylas_config_def setClientSecret_def setApiServer_def
        example_nylas_def example_config_def Let_def)

text \<open>
  Claim C8. \<open>urlForAuthentication\<close> throws when no client id is configured or no
  redirect URI is supplied. Otherwise it returns the API server, the literal path and
  query \<open>/oauth/authorize?client_id=...&response_type=code&login_hint=...&redirect_uri=...\<close>
  with the client id, the login hint (empty when none was given) and the redirect URI
  put in as they are, then \<open>&state=...\<close> exactly when a state was supplied, then
  \<open>&scopes=...\<close> with the scopes joined by commas exactly when a list of scopes was
  supplied. The URL is this concatenation and nothing else, so no component is encoded.
\<close>

theorem urlForAuthentication_cases:
  "(clientId this = [] \<or> redirectURI options = None \<or> redirectURI options = Some [] \<longrightarrow>
      (\<exists>m. urlForAuthentication this options = Inl (Error m))) \<and>
   (clientId this \<noteq> [] \<and> redirectURI options = Some uri \<and> uri \<noteq> [] \<longrightarrow>
      (\<exists>options'. urlForAuthentication this options =
         Inr (options',
              tmpl (apiServer (settings this)) @ ''/oauth/authorize?client_id='' @
              clientId this @ ''&response_type=code&login_hint='' @
              (case loginHint options of None \<Rightarrow> [] | Some h \<Rightarrow> h) @
              ''&redirect_uri='' @ uri @
              (case state options of None \<Rightarrow> [] | Some s \<Rightarrow> ''&state='' @ s) @
              (case scopes options of None \<Rightarrow> [] | Some xs \<Rightarrow> ''&scopes='' @ join '','' xs))))"
proof (intro conjI impI)
  assume "clientId this = [] \<or> redirectURI options = None \<or> redirectURI options = Some []"
  then show "\<exists>m. urlForAuthentication this options = Inl (Error m)"
    by (auto simp: urlForAuthentication_def)
next
  assume "clientId this \<noteq> [] \<and> redirectURI options = Some uri \<and> uri \<noteq> []"
  then show "\<exists>options'. urlForAuthentication this options =
         Inr (options',
              tmpl (apiServer (settings this)) @ ''/oauth/authorize?client_id='' @
              clientId this @ ''&response_type=code&login_hint='' @
              (case loginHint options of None \<Rightarrow> [] | Some h \<Rightarrow> h) @
              ''&redirect_uri='' @ uri @
              (case state options of None \<Rightarrow> [] | Some s \<Rightarrow> ''&state='' @ s) @
              (case scopes options of None \<Rightarrow> [] | Some xs \<Rightarrow> ''&scopes='' @ join '','' xs))"
    by (simp add: urlForAuthentication_def Let_def tmpl_def split: option.splits)
qed

theorem urlForAuthentication_cases_witness:
  "(\<exists>m. urlForAuthentication example_nylas
          \<lparr>redirectURI = None, loginHint = None, state = None, scopes = None\<rparr> =
        Inl (Error m)) \<and>
   urlForAuthentication example_nylas
       \<lparr>redirectURI = Some ''https://x/cb'', loginHint = None, state = None, scopes = None\<rparr> =
     Inr (\<lparr>redirectURI = Some ''https://x/cb'', loginHint = Some [], state = None,
            scopes = None\<rparr>,
          ''https://api.nylas.com/oauth/authorize?client_id=abc&response_type=code&login_hint=&redirect_uri=https://x/cb'') \<and>
   urlForAuthentication example_nylas
       \<lparr>redirectURI = Some ''https://x/cb?a=b c'', loginHint = Some ''me@x.io'',
        state = Some [], scopes = Some [''email.read_only'', ''calendar'']\<rparr> =
     Inr (\<lparr>redirectURI = Some ''https://x/cb?a=b c'', loginHint = Some ''me@x.io'',
            state = Some [], scopes = Some [''email.read_only'', ''calendar'']\<rparr>,
          ''https://api.nylas.com/oauth/authorize?client_id=abc&response_type=code&login_hint=me@x.io&redirect_uri=https://x/cb?a=b c&state=&scopes=email.read_only,calendar'')"
  using
    urlForAuthentication_cases [of example_nylas
      "\<lparr>redirectURI = None, loginHint = None, state = None, scopes = None\<rparr>"]
    urlForAuthentication_cases [of example_nylas
      "\<lparr>redirectURI = Some ''https://x/cb'', loginHint = None, state = None, scopes = None\<rparr>"
      "''https://x/cb''"]
    urlForAuthentication_cases [of example_nylas
      "\<lparr>redirectURI = Some ''https://x/cb?a=b c'', loginHint = Some ''me@x.io'',
        state = Some [], scopes = Some [''email.read_only'', ''calendar'']\<rparr>"
      "''https://x/cb?a=b c''"]
  by (simp add: urlForAuthentication_def example_nylas_def example_config_def tmpl_def
        Let_def)

end
